theory Spec2Isabelle
  imports Main "HOL-Library.Word" "HOL-Library.Sublist"
begin

section \<open>SWL: the Simple Window Library (SWL.hpp)\<close>

text \<open>
  The library is a header around the Win32 windowing calls. The embedding has three
  layers:
  \<^item> the data of the header (\<open>ApplicationException\<close>, \<open>Application\<close>) as records;
  \<^item> the Win32 calls the header makes, as operations on an explicit world state. What
    the operating system answers (handles, atoms, the messages it sends while a window
    is created or shown) is not computed by the header; it is read from a \<open>platform\<close>
    record, over which every theorem is quantified;
  \<^item> the header's own functions (\<open>WndProc\<close>, the constructors, \<open>WaitMessage\<close>,
    \<open>PollMessage\<close>), translated statement by statement.

  Every Win32 call and every hook invocation is appended to a call log (\<open>trace\<close>), so
  that "is called", "exactly once" and "before/after" are statements about that log.
  A C++ exception is the outcome \<open>Raised\<close>; it carries the world at the point of the
  \<open>throw\<close>. Sizes are those of 64-bit Windows.
\<close>

subsection \<open>Win32 types and constants\<close>

type_synonym wchar = "16 word"
type_synonym wstring = "wchar list"
type_synonym DWORD = "32 word"
type_synonym UINT = "32 word"
type_synonym ATOM = "16 word"
type_synonym BOOL = int
type_synonym ULONGLONG = "64 word"
type_synonym WPARAM = "64 word"
type_synonym LPARAM = "64 word"
type_synonym LONG_PTR = "64 word"
type_synonym LRESULT = "64 word"
type_synonym HWND = "64 word"
type_synonym HDC = "64 word"
type_synonym HINSTANCE = "64 word"
type_synonym ptr = "64 word"

text \<open>A wide string literal \<open>L"..."\<close>: one 16-bit unit for each character.\<close>

definition L :: "string \<Rightarrow> wstring" where
  "L s = map of_char s"

definition NULL :: "64 word" where
  "NULL = 0"

definition TRUE :: int where
  "TRUE = 1"

definition FALSE :: int where
  "FALSE = 0"

text \<open>
  The message identifiers, virtual-key codes and \<open>SW_SHOW\<close> come from \<open>Windows.h\<close>,
  which is not part of the repository; they have the values of the Windows SDK.
\<close>

definition WM_CREATE :: UINT where "WM_CREATE = 0x0001"
definition WM_PAINT :: UINT where "WM_PAINT = 0x000F"
definition WM_CLOSE :: UINT where "WM_CLOSE = 0x0010"
definition WM_QUIT :: UINT where "WM_QUIT = 0x0012"
definition WM_NCCREATE :: UINT where "WM_NCCREATE = 0x0081"
definition WM_KEYDOWN :: UINT where "WM_KEYDOWN = 0x0100"
definition WM_KEYUP :: UINT where "WM_KEYUP = 0x0101"
definition WM_MOUSEMOVE :: UINT where "WM_MOUSEMOVE = 0x0200"
definition WM_LBUTTONDOWN :: UINT where "WM_LBUTTONDOWN = 0x0201"
definition WM_LBUTTONUP :: UINT where "WM_LBUTTONUP = 0x0202"
definition WM_RBUTTONDOWN :: UINT where "WM_RBUTTONDOWN = 0x0204"
definition WM_RBUTTONUP :: UINT where "WM_RBUTTONUP = 0x0205"
definition WM_MBUTTONDOWN :: UINT where "WM_MBUTTONDOWN = 0x0207"
definition WM_MBUTTONUP :: UINT where "WM_MBUTTONUP = 0x0208"

definition VK_LBUTTON :: UINT where "VK_LBUTTON = 0x01"
definition VK_RBUTTON :: UINT where "VK_RBUTTON = 0x02"
definition VK_MBUTTON :: UINT where "VK_MBUTTON = 0x04"

definition SW_SHOW :: int where "SW_SHOW = 5"

definition ERROR_INVALID_WINDOW_HANDLE :: DWORD where
  "ERROR_INVALID_WINDOW_HANDLE = 1400"

text \<open>
  \<open>GET_X_LPARAM\<close> and \<open>GET_Y_LPARAM\<close> of \<open>Windowsx.h\<close>: the low and the high 16-bit
  half of the low 32 bits, each read as a signed \<open>short\<close>.
\<close>

definition GET_X_LPARAM :: "LPARAM \<Rightarrow> int" where
  "GET_X_LPARAM lp = sint (ucast lp :: 16 word)"

definition GET_Y_LPARAM :: "LPARAM \<Rightarrow> int" where
  "GET_Y_LPARAM lp = sint (ucast (drop_bit 16 lp) :: 16 word)"

record MSG =
  msg_hwnd :: HWND
  msg_message :: UINT
  msg_wParam :: WPARAM
  msg_lParam :: LPARAM
  msg_time :: DWORD
  msg_pt :: "int \<times> int"

text \<open>\<open>MSG msg = {}\<close>: every member zero.\<close>

definition zero_MSG :: MSG where
  "zero_MSG = \<lparr>msg_hwnd = 0, msg_message = 0, msg_wParam = 0, msg_lParam = 0,
     msg_time = 0, msg_pt = (0, 0)\<rparr>"

record PAINTSTRUCT =
  ps_hdc :: HDC
  ps_fErase :: BOOL
  ps_rcPaint :: "int \<times> int \<times> int \<times> int"

record CREATESTRUCT =
  lpCreateParams :: ptr

record WNDCLASS =
  hInstance :: HINSTANCE
  lpszClassName :: wstring

subsection \<open>The data of the header\<close>

record ApplicationException =
  m_info :: wstring

text \<open>
  An object of a class derived from \<open>Application<DerivedType>\<close>: the two protected
  members of the base and, in \<open>derived\<close>, whatever the derived class adds.
\<close>

record 'd Application =
  m_hInstance :: HINSTANCE
  m_hWnd :: HWND
  derived :: 'd

text \<open>
  The overridable member functions. A hook reads the object and either returns (with
  the new contents of the derived part) or raises a value of type \<open>'x\<close>; a hook that
  raises is taken to leave the object as it found it. A hook does not assign the two
  base members, and Win32 calls made from inside a hook are outside the model.
\<close>

record ('d, 'x) hooks =
  OnPaint :: "HDC \<Rightarrow> PAINTSTRUCT \<Rightarrow> 'd Application \<Rightarrow> 'x + 'd"
  OnKeyDown :: "ULONGLONG \<Rightarrow> 'd Application \<Rightarrow> 'x + 'd"
  OnKeyUp :: "ULONGLONG \<Rightarrow> 'd Application \<Rightarrow> 'x + 'd"
  OnMouseButtonDown :: "UINT \<Rightarrow> 'd Application \<Rightarrow> 'x + 'd"
  OnMouseButtonUp :: "UINT \<Rightarrow> 'd Application \<Rightarrow> 'x + 'd"
  OnMouseMove :: "int \<Rightarrow> int \<Rightarrow> 'd Application \<Rightarrow> 'x + 'd"
  OnClose :: "'d Application \<Rightarrow> 'x + 'd"
  HandleOtherMessages :: "UINT \<Rightarrow> 'd Application \<Rightarrow> 'x + BOOL \<times> 'd"

text \<open>The bodies the base class gives them: \<open>{}\<close> and \<open>{ return FALSE; }\<close>.\<close>

definition default_hooks :: "('d, 'x) hooks" where
  "default_hooks = \<lparr>
     OnPaint = (\<lambda>hDC ps obj. Inr (derived obj)),
     OnKeyDown = (\<lambda>ulKey obj. Inr (derived obj)),
     OnKeyUp = (\<lambda>ulKey obj. Inr (derived obj)),
     OnMouseButtonDown = (\<lambda>uButton obj. Inr (derived obj)),
     OnMouseButtonUp = (\<lambda>uButton obj. Inr (derived obj)),
     OnMouseMove = (\<lambda>x y obj. Inr (derived obj)),
     OnClose = (\<lambda>obj. Inr (derived obj)),
     HandleOtherMessages = (\<lambda>uMsg obj. Inr (FALSE, derived obj))\<rparr>"

subsection \<open>The call log, the world and outcomes\<close>

datatype hook_call =
    OnPaint_call HDC PAINTSTRUCT
  | OnKeyDown_call ULONGLONG
  | OnKeyUp_call ULONGLONG
  | OnMouseButtonDown_call UINT
  | OnMouseButtonUp_call UINT
  | OnMouseMove_call int int
  | OnClose_call
  | HandleOtherMessages_call UINT

datatype call =
    Call_GetLastError
  | Call_MessageBoxW wstring
  | Call_OutputDebugStringW wstring
  | Call_GetModuleHandleW
  | Call_RegisterClassW WNDCLASS
  | Call_CreateWindowExW DWORD wstring wstring DWORD int int int int HINSTANCE ptr
  | Call_ShowWindow HWND int
  | Call_SetWindowLongPtr HWND LONG_PTR
  | Call_GetWindowLongPtr HWND
  | Call_BeginPaint HWND
  | Call_EndPaint HWND PAINTSTRUCT
  | Call_PostQuitMessage int
  | Call_DefWindowProc HWND UINT WPARAM LPARAM
  | Call_GetMessageW
  | Call_PeekMessageW
  | Call_TranslateMessage MSG
  | Call_DispatchMessageW MSG
  | Hook ptr hook_call

text \<open>
  The world: the thread's last-error code, the objects in memory, the \<open>CREATESTRUCT\<close>s
  the platform has written, the windows that exist (each with its \<open>GWLP_USERDATA\<close>
  slot), the thread's message queue and the call log.
\<close>

record 'd world =
  last_error :: DWORD
  objects :: "ptr \<rightharpoonup> 'd Application"
  create_structs :: "LPARAM \<rightharpoonup> CREATESTRUCT"
  user_data :: "HWND \<rightharpoonup> LONG_PTR"
  queue :: "MSG list"
  trace :: "call list"

text \<open>
  What the operating system answers. \<open>register_atom = 0\<close> is a failed registration and
  \<open>new_hwnd = NULL\<close> a refused creation, each with the last-error code it leaves. While
  \<open>CreateWindowExW\<close> runs, the platform sends \<open>before_nccreate\<close>, then \<open>WM_NCCREATE\<close>
  with the address \<open>cs_addr\<close> of the \<open>CREATESTRUCT\<close> it has filled in, then
  \<open>after_nccreate\<close>, all to the window procedure and all with the handle \<open>new_hwnd\<close>;
  \<open>ShowWindow\<close> sends \<open>show_messages\<close>. \<open>retrieval_error = Some e\<close> makes
  \<open>GetMessageW\<close> fail with last-error code \<open>e\<close>.
\<close>

record platform =
  module_handle :: HINSTANCE
  register_atom :: ATOM
  register_error :: DWORD
  new_hwnd :: HWND
  create_error :: DWORD
  cs_addr :: LPARAM
  before_nccreate :: "(UINT \<times> WPARAM \<times> LPARAM) list"
  after_nccreate :: "(UINT \<times> WPARAM \<times> LPARAM) list"
  show_messages :: "(UINT \<times> WPARAM \<times> LPARAM) list"
  def_result :: "UINT \<Rightarrow> LRESULT"
  paint_info :: "HWND \<Rightarrow> PAINTSTRUCT"
  retrieval_error :: "DWORD option"

text \<open>
  An exception is either the library's own \<open>throw ApplicationException(...)\<close> or a
  value raised by a hook. A call returns, raises, never returns (\<open>GetMessageW\<close> on a
  queue that stays empty) or goes through a pointer that refers to no object (\<open>Fault\<close>:
  undefined behaviour in C++).
\<close>

datatype 'x exn = Thrown ApplicationException | Hook_Raised 'x

datatype ('x, 'a) outcome = Returned 'a | Raised "'x exn" | Blocked | Fault

definition seq ::
  "('d world \<Rightarrow> ('x, 'a) outcome \<times> 'd world) \<Rightarrow>
   ('a \<Rightarrow> 'd world \<Rightarrow> ('x, 'b) outcome \<times> 'd world) \<Rightarrow>
   'd world \<Rightarrow> ('x, 'b) outcome \<times> 'd world" where
  "seq m f w =
     (case m w of
        (Returned a, w') \<Rightarrow> f a w'
      | (Raised e, w') \<Rightarrow> (Raised e, w')
      | (Blocked, w') \<Rightarrow> (Blocked, w')
      | (Fault, w') \<Rightarrow> (Fault, w'))"

definition log :: "call \<Rightarrow> 'd world \<Rightarrow> 'd world" where
  "log c w = w\<lparr>trace := trace w @ [c]\<rparr>"

text \<open>The calls made after the world \<open>w\<close>, read from the log of a later world.\<close>

definition calls_since :: "'d world \<Rightarrow> 'd world \<Rightarrow> call list" where
  "calls_since w w' = drop (length (trace w)) (trace w')"

fun is_hook :: "call \<Rightarrow> bool" where
  "is_hook (Hook p h) = True"
| "is_hook c = False"

fun is_DefWindowProc :: "call \<Rightarrow> bool" where
  "is_DefWindowProc (Call_DefWindowProc h u wp lp) = True"
| "is_DefWindowProc c = False"

fun is_EndPaint :: "call \<Rightarrow> bool" where
  "is_EndPaint (Call_EndPaint h ps) = True"
| "is_EndPaint c = False"

fun is_PostQuitMessage :: "call \<Rightarrow> bool" where
  "is_PostQuitMessage (Call_PostQuitMessage n) = True"
| "is_PostQuitMessage c = False"

fun is_CreateWindowExW :: "call \<Rightarrow> bool" where
  "is_CreateWindowExW (Call_CreateWindowExW a b c d e f g h i j) = True"
| "is_CreateWindowExW c = False"

text \<open>A pointer refers to an object if it is not null and the object is in memory.\<close>

definition deref :: "'d world \<Rightarrow> ptr \<Rightarrow> 'd Application option" where
  "deref w p = (if p = NULL then None else objects w p)"

definition window_slot :: "'d world \<Rightarrow> HWND \<Rightarrow> LONG_PTR option" where
  "window_slot w h = (if h = NULL then None else user_data w h)"

definition ret :: "'a \<Rightarrow> 'd world \<Rightarrow> ('x, 'a) outcome \<times> 'd world" where
  "ret a w = (Returned a, w)"

text \<open>Reading an object and writing one of its members through a pointer.\<close>

definition load :: "ptr \<Rightarrow> 'd world \<Rightarrow> ('x, 'd Application) outcome \<times> 'd world" where
  "load p w = (case deref w p of None \<Rightarrow> (Fault, w) | Some obj \<Rightarrow> (Returned obj, w))"

definition store_m_hInstance ::
  "ptr \<Rightarrow> HINSTANCE \<Rightarrow> 'd world \<Rightarrow> ('x, unit) outcome \<times> 'd world" where
  "store_m_hInstance p h w =
     (case deref w p of
        None \<Rightarrow> (Fault, w)
      | Some obj \<Rightarrow> (Returned (), w\<lparr>objects := (objects w)(p \<mapsto> obj\<lparr>m_hInstance := h\<rparr>)\<rparr>))"

definition store_m_hWnd ::
  "ptr \<Rightarrow> HWND \<Rightarrow> 'd world \<Rightarrow> ('x, unit) outcome \<times> 'd world" where
  "store_m_hWnd p h w =
     (case deref w p of
        None \<Rightarrow> (Fault, w)
      | Some obj \<Rightarrow> (Returned (), w\<lparr>objects := (objects w)(p \<mapsto> obj\<lparr>m_hWnd := h\<rparr>)\<rparr>))"

definition read_CREATESTRUCT ::
  "LPARAM \<Rightarrow> 'd world \<Rightarrow> ('x, CREATESTRUCT) outcome \<times> 'd world" where
  "read_CREATESTRUCT lp w =
     (case create_structs w lp of None \<Rightarrow> (Fault, w) | Some cs \<Rightarrow> (Returned cs, w))"

text \<open>
  A call of a member function through \<open>pDerivedType\<close>: the call is logged, then the
  hook's body runs on the object; what it raises propagates.
\<close>

definition void_hook :: "('d Application \<Rightarrow> 'x + 'd) \<Rightarrow> 'd Application \<Rightarrow> 'x + unit \<times> 'd" where
  "void_hook h obj = (case h obj of Inl x \<Rightarrow> Inl x | Inr d \<Rightarrow> Inr ((), d))"

definition invoke ::
  "ptr \<Rightarrow> hook_call \<Rightarrow> ('d Application \<Rightarrow> 'x + 'a \<times> 'd) \<Rightarrow>
   'd world \<Rightarrow> ('x, 'a) outcome \<times> 'd world" where
  "invoke p c body w =
     (case deref w p of
        None \<Rightarrow> (Fault, w)
      | Some obj \<Rightarrow>
          (case body obj of
             Inl x \<Rightarrow> (Raised (Hook_Raised x), log (Hook p c) w)
           | Inr (a, d) \<Rightarrow>
               (Returned a, (log (Hook p c) w)\<lparr>objects := (objects w)(p \<mapsto> obj\<lparr>derived := d\<rparr>)\<rparr>)))"

subsection \<open>The Win32 calls\<close>

definition GetModuleHandleW ::
  "platform \<Rightarrow> 'd world \<Rightarrow> ('x, HINSTANCE) outcome \<times> 'd world" where
  "GetModuleHandleW pf w = (Returned (module_handle pf), log Call_GetModuleHandleW w)"

definition RegisterClassW ::
  "platform \<Rightarrow> WNDCLASS \<Rightarrow> 'd world \<Rightarrow> ('x, ATOM) outcome \<times> 'd world" where
  "RegisterClassW pf wc w =
     (Returned (register_atom pf),
      (log (Call_RegisterClassW wc) w)
        \<lparr>last_error := (if register_atom pf = 0 then register_error pf else last_error w)\<rparr>)"

definition SetWindowLongPtr ::
  "HWND \<Rightarrow> LONG_PTR \<Rightarrow> 'd world \<Rightarrow> ('x, LONG_PTR) outcome \<times> 'd world" where
  "SetWindowLongPtr hWnd v w =
     (case window_slot w hWnd of
        None \<Rightarrow>
          (Returned 0, (log (Call_SetWindowLongPtr hWnd v) w)
             \<lparr>last_error := ERROR_INVALID_WINDOW_HANDLE\<rparr>)
      | Some old \<Rightarrow>
          (Returned old, (log (Call_SetWindowLongPtr hWnd v) w)
             \<lparr>user_data := (user_data w)(hWnd \<mapsto> v)\<rparr>))"

definition GetWindowLongPtr ::
  "HWND \<Rightarrow> 'd world \<Rightarrow> ('x, LONG_PTR) outcome \<times> 'd world" where
  "GetWindowLongPtr hWnd w =
     (case window_slot w hWnd of
        None \<Rightarrow>
          (Returned 0, (log (Call_GetWindowLongPtr hWnd) w)
             \<lparr>last_error := ERROR_INVALID_WINDOW_HANDLE\<rparr>)
      | Some v \<Rightarrow> (Returned v, log (Call_GetWindowLongPtr hWnd) w))"

text \<open>\<open>BeginPaint\<close> fills in the \<open>PAINTSTRUCT\<close> and returns its device context.\<close>

definition BeginPaint ::
  "platform \<Rightarrow> HWND \<Rightarrow> 'd world \<Rightarrow> ('x, HDC \<times> PAINTSTRUCT) outcome \<times> 'd world" where
  "BeginPaint pf hWnd w =
     (Returned (ps_hdc (paint_info pf hWnd), paint_info pf hWnd), log (Call_BeginPaint hWnd) w)"

definition EndPaint ::
  "HWND \<Rightarrow> PAINTSTRUCT \<Rightarrow> 'd world \<Rightarrow> ('x, unit) outcome \<times> 'd world" where
  "EndPaint hWnd ps w = (Returned (), log (Call_EndPaint hWnd ps) w)"

text \<open>The quit record: a \<open>WM_QUIT\<close> message for no window, with the exit code.\<close>

definition quit_MSG :: "int \<Rightarrow> MSG" where
  "quit_MSG n = zero_MSG\<lparr>msg_message := WM_QUIT, msg_wParam := word_of_int n\<rparr>"

definition PostQuitMessage :: "int \<Rightarrow> 'd world \<Rightarrow> ('x, unit) outcome \<times> 'd world" where
  "PostQuitMessage n w =
     (Returned (), (log (Call_PostQuitMessage n) w)\<lparr>queue := queue w @ [quit_MSG n]\<rparr>)"

text \<open>Of the default window procedure only the call and its result are modelled.\<close>

definition DefWindowProc ::
  "platform \<Rightarrow> HWND \<Rightarrow> UINT \<Rightarrow> WPARAM \<Rightarrow> LPARAM \<Rightarrow>
   'd world \<Rightarrow> ('x, LRESULT) outcome \<times> 'd world" where
  "DefWindowProc pf hWnd uMsg wParam lParam w =
     (Returned (def_result pf uMsg), log (Call_DefWindowProc hWnd uMsg wParam lParam) w)"

text \<open>
  \<open>GetMessageW(&msg, NULL, 0, 0)\<close>: \<open>-1\<close> on failure, otherwise the next message of the
  queue, with \<open>0\<close> for \<open>WM_QUIT\<close> and non-zero for any other; it does not return while
  the queue is empty. \<open>PeekMessageW(&msg, NULL, 0, 0, PM_REMOVE)\<close> returns at once and
  leaves \<open>msg\<close> as it was when nothing is pending.
\<close>

definition GetMessageW ::
  "platform \<Rightarrow> MSG \<Rightarrow> 'd world \<Rightarrow> ('x, BOOL \<times> MSG) outcome \<times> 'd world" where
  "GetMessageW pf msg w =
     (case retrieval_error pf of
        Some e \<Rightarrow> (Returned (- 1, msg), (log Call_GetMessageW w)\<lparr>last_error := e\<rparr>)
      | None \<Rightarrow>
          (case queue w of
             [] \<Rightarrow> (Blocked, log Call_GetMessageW w)
           | m # ms \<Rightarrow>
               (Returned (if msg_message m = WM_QUIT then 0 else 1, m),
                (log Call_GetMessageW w)\<lparr>queue := ms\<rparr>)))"

definition PeekMessageW ::
  "MSG \<Rightarrow> 'd world \<Rightarrow> ('x, BOOL \<times> MSG) outcome \<times> 'd world" where
  "PeekMessageW msg w =
     (case queue w of
        [] \<Rightarrow> (Returned (FALSE, msg), log Call_PeekMessageW w)
      | m # ms \<Rightarrow> (Returned (TRUE, m), (log Call_PeekMessageW w)\<lparr>queue := ms\<rparr>))"

text \<open>Of \<open>TranslateMessage\<close> only the call is modelled, not the character messages.\<close>

definition TranslateMessage :: "MSG \<Rightarrow> 'd world \<Rightarrow> ('x, BOOL) outcome \<times> 'd world" where
  "TranslateMessage msg w = (Returned FALSE, log (Call_TranslateMessage msg) w)"

subsection \<open>ApplicationException\<close>

text \<open>\<open>std::to_wstring\<close> of an \<open>unsigned long\<close>: its decimal digits.\<close>

fun to_wstring :: "nat \<Rightarrow> wstring" where
  "to_wstring n =
     (if n < 10 then [of_nat (48 + n)]
      else to_wstring (n div 10) @ [of_nat (48 + n mod 10)])"

declare to_wstring.simps [simp del]

definition ApplicationException_ctor ::
  "wstring \<Rightarrow> 'd world \<Rightarrow> ApplicationException \<times> 'd world" where
  "ApplicationException_ctor lpInfo w =
     (\<lparr>m_info = [] @ lpInfo @ L '' | Error code : '' @ to_wstring (unat (last_error w))\<rparr>,
      log Call_GetLastError w)"

definition ShowMessageBox :: "ApplicationException \<Rightarrow> 'd world \<Rightarrow> 'd world" where
  "ShowMessageBox e w = log (Call_MessageBoxW (m_info e)) w"

definition ShowDebugOutput :: "ApplicationException \<Rightarrow> 'd world \<Rightarrow> 'd world" where
  "ShowDebugOutput e w = log (Call_OutputDebugStringW (m_info e)) w"

text \<open>\<open>throw ApplicationException(lpInfo)\<close>.\<close>

definition throw_ApplicationException ::
  "wstring \<Rightarrow> 'd world \<Rightarrow> ('x, 'a) outcome \<times> 'd world" where
  "throw_ApplicationException lpInfo w =
     (Raised (Thrown (fst (ApplicationException_ctor lpInfo w))),
      snd (ApplicationException_ctor lpInfo w))"

subsection \<open>Application: the window procedure\<close>

text \<open>
  The first part of \<open>WndProc\<close>: \<open>pDerivedType\<close> comes from the creation data on
  \<open>WM_NCCREATE\<close> (and is then stored in the window and the handle written back into the
  object), from the window's user-data slot on every other message.
\<close>

definition find_shell ::
  "HWND \<Rightarrow> UINT \<Rightarrow> LPARAM \<Rightarrow> 'd world \<Rightarrow> ('x, ptr) outcome \<times> 'd world" where
  "find_shell hWnd uMsg lParam =
     (if uMsg = WM_NCCREATE then
        seq (read_CREATESTRUCT lParam) (\<lambda>pCreate.
        seq (SetWindowLongPtr hWnd (lpCreateParams pCreate)) (\<lambda>_.
        seq (store_m_hWnd (lpCreateParams pCreate) hWnd) (\<lambda>_.
        ret (lpCreateParams pCreate))))
      else GetWindowLongPtr hWnd)"

text \<open>
  The \<open>switch\<close>: \<open>Some r\<close> is \<open>return r\<close>, \<open>None\<close> leaves the \<open>switch\<close> (the default
  case when \<open>HandleOtherMessages\<close> returns zero).
\<close>

definition dispatch_switch ::
  "platform \<Rightarrow> ('d, 'x) hooks \<Rightarrow> ptr \<Rightarrow> HWND \<Rightarrow> UINT \<Rightarrow> WPARAM \<Rightarrow> LPARAM \<Rightarrow>
   'd world \<Rightarrow> ('x, LRESULT option) outcome \<times> 'd world" where
  "dispatch_switch pf hk pDerivedType hWnd uMsg wParam lParam =
     (if uMsg = WM_PAINT then
        seq (BeginPaint pf hWnd) (\<lambda>(hDC, ps).
        seq (invoke pDerivedType (OnPaint_call hDC ps) (void_hook (OnPaint hk hDC ps))) (\<lambda>_.
        seq (EndPaint hWnd ps) (\<lambda>_.
        ret (Some 1))))
      else if uMsg = WM_KEYDOWN then
        seq (invoke pDerivedType (OnKeyDown_call wParam) (void_hook (OnKeyDown hk wParam)))
          (\<lambda>_. ret (Some 1))
      else if uMsg = WM_KEYUP then
        seq (invoke pDerivedType (OnKeyUp_call wParam) (void_hook (OnKeyUp hk wParam)))
          (\<lambda>_. ret (Some 1))
      else if uMsg = WM_LBUTTONDOWN then
        seq (invoke pDerivedType (OnMouseButtonDown_call VK_LBUTTON)
               (void_hook (OnMouseButtonDown hk VK_LBUTTON)))
          (\<lambda>_. ret (Some 1))
      else if uMsg = WM_MBUTTONDOWN then
        seq (invoke pDerivedType (OnMouseButtonDown_call VK_MBUTTON)
               (void_hook (OnMouseButtonDown hk VK_MBUTTON)))
          (\<lambda>_. ret (Some 1))
      else if uMsg = WM_RBUTTONDOWN then
        seq (invoke pDerivedType (OnMouseButtonDown_call VK_RBUTTON)
               (void_hook (OnMouseButtonDown hk VK_RBUTTON)))
          (\<lambda>_. ret (Some 1))
      else if uMsg = WM_LBUTTONUP then
        seq (invoke pDerivedType (OnMouseButtonUp_call VK_LBUTTON)
               (void_hook (OnMouseButtonUp hk VK_LBUTTON)))
          (\<lambda>_. ret (Some 1))
      else if uMsg = WM_MBUTTONUP then
        seq (invoke pDerivedType (OnMouseButtonUp_call VK_MBUTTON)
               (void_hook (OnMouseButtonUp hk VK_MBUTTON)))
          (\<lambda>_. ret (Some 1))
      else if uMsg = WM_RBUTTONUP then
        seq (invoke pDerivedType (OnMouseButtonUp_call VK_RBUTTON)
               (void_hook (OnMouseButtonUp hk VK_RBUTTON)))
          (\<lambda>_. ret (Some 1))
      else if uMsg = WM_MOUSEMOVE then
        seq (invoke pDerivedType (OnMouseMove_call (GET_X_LPARAM lParam) (GET_Y_LPARAM lParam))
               (void_hook (OnMouseMove hk (GET_X_LPARAM lParam) (GET_Y_LPARAM lParam))))
          (\<lambda>_. ret (Some 1))
      else if uMsg = WM_CLOSE then
        seq (invoke pDerivedType OnClose_call (void_hook (OnClose hk))) (\<lambda>_.
        seq (PostQuitMessage 0) (\<lambda>_.
        ret (Some 1)))
      else
        seq (invoke pDerivedType (HandleOtherMessages_call uMsg) (HandleOtherMessages hk uMsg))
          (\<lambda>handled. if handled \<noteq> 0 then ret (Some 1) else ret None))"

definition WndProc ::
  "platform \<Rightarrow> ('d, 'x) hooks \<Rightarrow> HWND \<Rightarrow> UINT \<Rightarrow> WPARAM \<Rightarrow> LPARAM \<Rightarrow>
   'd world \<Rightarrow> ('x, LRESULT) outcome \<times> 'd world" where
  "WndProc pf hk hWnd uMsg wParam lParam =
     seq (find_shell hWnd uMsg lParam) (\<lambda>pDerivedType.
     seq (if pDerivedType \<noteq> NULL
          then dispatch_switch pf hk pDerivedType hWnd uMsg wParam lParam
          else ret None) (\<lambda>r.
     case r of
       Some v \<Rightarrow> ret v
     | None \<Rightarrow> DefWindowProc pf hWnd uMsg wParam lParam))"

text \<open>The message identifiers the \<open>switch\<close> has a case for.\<close>

definition routed_messages :: "UINT list" where
  "routed_messages =
     [WM_PAINT, WM_KEYDOWN, WM_KEYUP, WM_LBUTTONDOWN, WM_MBUTTONDOWN, WM_RBUTTONDOWN,
      WM_LBUTTONUP, WM_MBUTTONUP, WM_RBUTTONUP, WM_MOUSEMOVE, WM_CLOSE]"

subsection \<open>The Win32 calls that enter the window procedure\<close>

text \<open>
  \<open>DispatchMessageW\<close> calls the window procedure of the message's window; for a
  message that names no window (as the quit record and the zeroed record do) it does
  nothing. What the window procedure raises is taken to propagate to the caller.
\<close>

definition DispatchMessageW ::
  "platform \<Rightarrow> ('d, 'x) hooks \<Rightarrow> MSG \<Rightarrow> 'd world \<Rightarrow> ('x, LRESULT) outcome \<times> 'd world" where
  "DispatchMessageW pf hk msg w =
     (case window_slot w (msg_hwnd msg) of
        None \<Rightarrow> (Returned 0, log (Call_DispatchMessageW msg) w)
      | Some v \<Rightarrow>
          WndProc pf hk (msg_hwnd msg) (msg_message msg) (msg_wParam msg) (msg_lParam msg)
            (log (Call_DispatchMessageW msg) w))"

text \<open>
  The messages the platform sends while it creates a window: the result \<open>False\<close> says
  that the window procedure vetoed the creation (\<open>FALSE\<close> for \<open>WM_NCCREATE\<close>, \<open>-1\<close> for
  \<open>WM_CREATE\<close>).
\<close>

fun send_creation ::
  "platform \<Rightarrow> ('d, 'x) hooks \<Rightarrow> HWND \<Rightarrow> (UINT \<times> WPARAM \<times> LPARAM) list \<Rightarrow>
   'd world \<Rightarrow> ('x, bool) outcome \<times> 'd world" where
  "send_creation pf hk h [] w = (Returned True, w)"
| "send_creation pf hk h ((u, wp, lp) # ms) w =
     (case WndProc pf hk h u wp lp w of
        (Returned r, w') \<Rightarrow>
          if (u = WM_NCCREATE \<and> r = 0) \<or> (u = WM_CREATE \<and> r = - 1) then (Returned False, w')
          else send_creation pf hk h ms w'
      | (Raised e, w') \<Rightarrow> (Raised e, w')
      | (Blocked, w') \<Rightarrow> (Blocked, w')
      | (Fault, w') \<Rightarrow> (Fault, w'))"

fun send_all ::
  "platform \<Rightarrow> ('d, 'x) hooks \<Rightarrow> HWND \<Rightarrow> (UINT \<times> WPARAM \<times> LPARAM) list \<Rightarrow>
   'd world \<Rightarrow> ('x, unit) outcome \<times> 'd world" where
  "send_all pf hk h [] w = (Returned (), w)"
| "send_all pf hk h ((u, wp, lp) # ms) w =
     (case WndProc pf hk h u wp lp w of
        (Returned r, w') \<Rightarrow> send_all pf hk h ms w'
      | (Raised e, w') \<Rightarrow> (Raised e, w')
      | (Blocked, w') \<Rightarrow> (Blocked, w')
      | (Fault, w') \<Rightarrow> (Fault, w'))"

text \<open>
  \<open>CreateWindowExW\<close> (the null parent and menu arguments are left out): the platform
  makes the window with an empty user-data slot, writes the \<open>CREATESTRUCT\<close> that carries
  \<open>lpParam\<close> and sends the creation messages. It returns the handle of the window, or
  \<open>NULL\<close> when it refuses or the window procedure vetoes; the window is then gone.
\<close>

definition CreateWindowExW ::
  "platform \<Rightarrow> ('d, 'x) hooks \<Rightarrow> DWORD \<Rightarrow> wstring \<Rightarrow> wstring \<Rightarrow> DWORD \<Rightarrow>
   int \<Rightarrow> int \<Rightarrow> int \<Rightarrow> int \<Rightarrow> HINSTANCE \<Rightarrow> ptr \<Rightarrow>
   'd world \<Rightarrow> ('x, HWND) outcome \<times> 'd world" where
  "CreateWindowExW pf hk dwExStyle lpClassName lpWindowName dwStyle x y nWidth nHeight
       hInst lpParam w =
     (if new_hwnd pf = NULL then
        (Returned NULL,
         (log (Call_CreateWindowExW dwExStyle lpClassName lpWindowName dwStyle x y
                 nWidth nHeight hInst lpParam) w)\<lparr>last_error := create_error pf\<rparr>)
      else
        seq (send_creation pf hk (new_hwnd pf)
               (before_nccreate pf @ [(WM_NCCREATE, 0, cs_addr pf)] @ after_nccreate pf))
          (\<lambda>alive w'.
             if alive then (Returned (new_hwnd pf), w')
             else (Returned NULL,
                   w'\<lparr>user_data := (user_data w')(new_hwnd pf := None),
                      last_error := create_error pf\<rparr>))
          ((log (Call_CreateWindowExW dwExStyle lpClassName lpWindowName dwStyle x y
                  nWidth nHeight hInst lpParam) w)
             \<lparr>user_data := (user_data w)(new_hwnd pf \<mapsto> 0),
              create_structs := (create_structs w)(cs_addr pf \<mapsto> \<lparr>lpCreateParams = lpParam\<rparr>)\<rparr>))"

definition ShowWindow ::
  "platform \<Rightarrow> ('d, 'x) hooks \<Rightarrow> HWND \<Rightarrow> int \<Rightarrow> 'd world \<Rightarrow> ('x, BOOL) outcome \<times> 'd world" where
  "ShowWindow pf hk hWnd nCmdShow w =
     (case window_slot w hWnd of
        None \<Rightarrow>
          (Returned FALSE, (log (Call_ShowWindow hWnd nCmdShow) w)
             \<lparr>last_error := ERROR_INVALID_WINDOW_HANDLE\<rparr>)
      | Some v \<Rightarrow>
          seq (send_all pf hk hWnd (show_messages pf)) (\<lambda>_. ret FALSE)
            (log (Call_ShowWindow hWnd nCmdShow) w))"

subsection \<open>Application: the constructor and the two pumps\<close>

text \<open>
  The constructor runs on the storage at \<open>this\<close>. \<open>hk\<close> are the member functions in
  effect while it runs: the window procedure is entered from \<open>CreateWindowExW\<close> and
  \<open>ShowWindow\<close> before the derived class's constructor has started, when virtual calls
  usually still reach the bodies of the base class (\<open>default_hooks\<close>). Nothing below
  depends on which hooks these are.
\<close>

definition Application_ctor ::
  "platform \<Rightarrow> ('d, 'x) hooks \<Rightarrow> ptr \<Rightarrow> wstring \<Rightarrow> int \<Rightarrow> int \<Rightarrow> int \<Rightarrow> int \<Rightarrow>
   DWORD \<Rightarrow> DWORD \<Rightarrow> 'd world \<Rightarrow> ('x, unit) outcome \<times> 'd world" where
  "Application_ctor pf hk this lpWindowName nWidth nHeight x y dwStyle dwExStyle =
     seq (GetModuleHandleW pf) (\<lambda>h.
     seq (store_m_hInstance this h) (\<lambda>_.
     seq (load this) (\<lambda>obj.
     seq (RegisterClassW pf \<lparr>hInstance = m_hInstance obj, lpszClassName = lpWindowName\<rparr>)
       (\<lambda>atom.
     if atom = 0 then
       throw_ApplicationException (L ''Failed to register the window class (RegisterClassW)'')
     else
       seq (CreateWindowExW pf hk dwExStyle lpWindowName lpWindowName dwStyle x y
              nWidth nHeight (m_hInstance obj) this) (\<lambda>hWnd.
       seq (store_m_hWnd this hWnd) (\<lambda>_.
       if hWnd = NULL then
         throw_ApplicationException (L ''Failed to create a window (CreateWindowEx)'')
       else
         seq (ShowWindow pf hk hWnd SW_SHOW) (\<lambda>_. ret ())))))))"

definition WaitMessage ::
  "platform \<Rightarrow> ('d, 'x) hooks \<Rightarrow> 'd world \<Rightarrow> ('x, unit) outcome \<times> 'd world" where
  "WaitMessage pf hk =
     seq (GetMessageW pf zero_MSG) (\<lambda>(r, msg).
     if r = - 1 then
       throw_ApplicationException (L ''Failed to get a message (GetMessageW)'')
     else
       seq (TranslateMessage msg) (\<lambda>_.
       seq (DispatchMessageW pf hk msg) (\<lambda>_. ret ())))"

definition PollMessage ::
  "platform \<Rightarrow> ('d, 'x) hooks \<Rightarrow> 'd world \<Rightarrow> ('x, unit) outcome \<times> 'd world" where
  "PollMessage pf hk =
     seq (PeekMessageW zero_MSG) (\<lambda>(r, msg).
     seq (TranslateMessage msg) (\<lambda>_.
     seq (DispatchMessageW pf hk msg) (\<lambda>_. ret ())))"

subsection \<open>Notions used in the statements and proofs\<close>

text \<open>
  The shell pointer a window is associated with: the value in its user-data slot,
  \<open>NULL\<close> when the slot was never written or the handle names no window. It is what
  \<open>GetWindowLongPtr(hWnd, GWLP_USERDATA)\<close> returns.
\<close>

definition slot_value :: "'d world \<Rightarrow> HWND \<Rightarrow> LONG_PTR" where
  "slot_value w hWnd = (case window_slot w hWnd of None \<Rightarrow> NULL | Some v \<Rightarrow> v)"

text \<open>
  What a message other than \<open>WM_NCCREATE\<close> leaves alone: the windows and their slots,
  the \<open>CREATESTRUCT\<close>s, and the window handle stored in each object.
\<close>

definition frame :: "'d world \<Rightarrow> 'd world \<Rightarrow> bool" where
  "frame w w' \<longleftrightarrow>
     user_data w' = user_data w \<and> create_structs w' = create_structs w \<and>
     (\<lambda>p. map_option m_hWnd (objects w' p)) = (\<lambda>p. map_option m_hWnd (objects w p))"

text \<open>
  An operation is orderly if it only appends to the call log and never throws an
  \<open>ApplicationException\<close>; it is framed if it leaves alone what \<open>frame\<close> names.
\<close>

definition orderly :: "('d world \<Rightarrow> ('x, 'a) outcome \<times> 'd world) \<Rightarrow> bool" where
  "orderly m \<longleftrightarrow>
     (\<forall>w. prefix (trace w) (trace (snd (m w))) \<and> (\<forall>e. fst (m w) \<noteq> Raised (Thrown e)))"

definition framed :: "('d world \<Rightarrow> ('x, 'a) outcome \<times> 'd world) \<Rightarrow> bool" where
  "framed m \<longleftrightarrow> (\<forall>w. frame w (snd (m w)))"

text \<open>
  The second part of \<open>WndProc\<close>, after \<open>pDerivedType\<close> has been found: the \<open>switch\<close>
  under \<open>if (pDerivedType)\<close> and the final call of \<open>DefWindowProc\<close>.
\<close>

definition route ::
  "platform \<Rightarrow> ('d, 'x) hooks \<Rightarrow> HWND \<Rightarrow> UINT \<Rightarrow> WPARAM \<Rightarrow> LPARAM \<Rightarrow> ptr \<Rightarrow>
   'd world \<Rightarrow> ('x, LRESULT) outcome \<times> 'd world" where
  "route pf hk hWnd uMsg wParam lParam pDerivedType =
     seq (if pDerivedType \<noteq> NULL
          then dispatch_switch pf hk pDerivedType hWnd uMsg wParam lParam
          else ret None) (\<lambda>r.
     case r of
       Some v \<Rightarrow> ret v
     | None \<Rightarrow> DefWindowProc pf hWnd uMsg wParam lParam)"

text \<open>Reading a decimal numeral back.\<close>

definition of_digits :: "wstring \<Rightarrow> nat" where
  "of_digits ds = foldl (\<lambda>a d. 10 * a + (unat d - 48)) 0 ds"

subsection \<open>Concrete inputs\<close>

definition example_platform :: platform where
  "example_platform = \<lparr>
     module_handle = 7, register_atom = 0xC001, register_error = 0,
     new_hwnd = 0x50, create_error = 0, cs_addr = 0x900,
     before_nccreate = [(0x24, 0, 0)],
     after_nccreate = [(0x83, 0, 0), (WM_CREATE, 0, 0x900)],
     show_messages = [(0x18, 1, 0)],
     def_result = (\<lambda>u. if u = WM_NCCREATE then 1 else 0),
     paint_info = (\<lambda>h. \<lparr>ps_hdc = 0x77, ps_fErase = 0, ps_rcPaint = (0, 0, 640, 480)\<rparr>),
     retrieval_error = None\<rparr>"

text \<open>A platform on which class registration fails (the class exists already).\<close>

definition refusing_platform :: platform where
  "refusing_platform = example_platform\<lparr>register_atom := 0, register_error := 1410\<rparr>"

text \<open>A platform on which message retrieval fails.\<close>

definition failing_platform :: platform where
  "failing_platform = example_platform\<lparr>retrieval_error := Some 1400\<rparr>"

text \<open>Storage for an object at address \<open>0x1000\<close>, before its constructor has run.\<close>

definition fresh_world :: "unit world" where
  "fresh_world = \<lparr>
     last_error = 0,
     objects = [0x1000 \<mapsto> \<lparr>m_hInstance = 0, m_hWnd = 0, derived = ()\<rparr>],
     create_structs = Map.empty, user_data = Map.empty, queue = [], trace = []\<rparr>"

text \<open>The same storage while window \<open>0x50\<close> is being created for it.\<close>

definition creating_world :: "unit world" where
  "creating_world = fresh_world\<lparr>
     create_structs := [0x900 \<mapsto> \<lparr>lpCreateParams = 0x1000\<rparr>],
     user_data := [0x50 \<mapsto> 0]\<rparr>"

text \<open>A constructed shell at \<open>0x1000\<close> with its window \<open>0x50\<close>, and an empty queue.\<close>

definition example_world :: "unit world" where
  "example_world = \<lparr>
     last_error = 0,
     objects = [0x1000 \<mapsto> \<lparr>m_hInstance = 7, m_hWnd = 0x50, derived = ()\<rparr>],
     create_structs = Map.empty, user_data = [0x50 \<mapsto> 0x1000], queue = [], trace = []\<rparr>"

text \<open>The same world with the quit record pending.\<close>

definition quitting_world :: "unit world" where
  "quitting_world = example_world\<lparr>queue := [quit_MSG 0]\<rparr>"

text \<open>The same world with a key press for the window pending.\<close>

definition key_world :: "unit world" where
  "key_world = example_world\<lparr>queue :=
     [\<lparr>msg_hwnd = 0x50, msg_message = WM_KEYDOWN, msg_wParam = 0x41, msg_lParam = 0,
       msg_time = 0, msg_pt = (0, 0)\<rparr>]\<rparr>"

text \<open>A window \<open>0x60\<close> whose slot was never written.\<close>

definition unassociated_world :: "unit world" where
  "unassociated_world = example_world\<lparr>user_data := [0x50 \<mapsto> 0x1000, 0x60 \<mapsto> 0]\<rparr>"

text \<open>Hooks of a derived class whose \<open>OnPaint\<close> and \<open>OnClose\<close> raise.\<close>

definition raising_hooks :: "(unit, string) hooks" where
  "raising_hooks = default_hooks\<lparr>
     OnPaint := (\<lambda>hDC ps obj. Inl ''paint''),
     OnClose := (\<lambda>obj. Inl ''close'')\<rparr>"

text \<open>Hooks of a derived class that handles every message it is offered.\<close>

definition handling_hooks :: "(unit, string) hooks" where
  "handling_hooks = default_hooks\<lparr>HandleOtherMessages := (\<lambda>uMsg obj. Inr (TRUE, ()))\<rparr>"

section \<open>Properties\<close>

subsection \<open>Rewriting sets\<close>

lemmas msg_defs = WM_CREATE_def WM_PAINT_def WM_CLOSE_def WM_QUIT_def WM_NCCREATE_def
  WM_KEYDOWN_def WM_KEYUP_def WM_MOUSEMOVE_def WM_LBUTTONDOWN_def WM_LBUTTONUP_def
  WM_RBUTTONDOWN_def WM_RBUTTONUP_def WM_MBUTTONDOWN_def WM_MBUTTONUP_def

lemmas example_defs = example_platform_def refusing_platform_def failing_platform_def
  fresh_world_def creating_world_def example_world_def quitting_world_def key_world_def unassociated_world_def
  raising_hooks_def handling_hooks_def default_hooks_def

lemmas prim_defs = seq_def ret_def log_def deref_def window_slot_def load_def
  store_m_hInstance_def store_m_hWnd_def read_CREATESTRUCT_def void_hook_def invoke_def
  GetModuleHandleW_def RegisterClassW_def SetWindowLongPtr_def GetWindowLongPtr_def
  BeginPaint_def EndPaint_def PostQuitMessage_def DefWindowProc_def GetMessageW_def
  PeekMessageW_def TranslateMessage_def ApplicationException_ctor_def
  throw_ApplicationException_def

subsection \<open>ApplicationException\<close>

lemma unat_digit: "k < 10 \<Longrightarrow> unat (48 + word_of_nat k :: wchar) = 48 + k"
  using of_nat_inverse [OF refl, of "48 + k", where 'a = 16] by simp

lemma of_digits_snoc: "of_digits (ds @ [d]) = 10 * of_digits ds + (unat d - 48)"
  by (simp add: of_digits_def)

text \<open>The digits \<open>to_wstring\<close> writes are the decimal numeral of the number.\<close>

lemma of_digits_to_wstring: "of_digits (to_wstring n) = n"
proof (induction n rule: to_wstring.induct)
  case (1 n)
  show ?case
  proof (cases "n < 10")
    case True
    then show ?thesis
      by (subst to_wstring.simps) (simp add: of_digits_def unat_digit)
  next
    case False
    with "1" have ih: "of_digits (to_wstring (n div 10)) = n div 10"
      by simp
    have "of_digits (to_wstring n) = 10 * of_digits (to_wstring (n div 10)) + n mod 10"
      using False by (subst to_wstring.simps) (simp add: of_digits_snoc unat_digit)
    with ih show ?thesis by simp
  qed
qed

text \<open>
  C8. The message of an \<open>ApplicationException\<close> is the description followed by the
  separator and the decimal numeral of the last-error code of the world in which the
  exception is constructed: the description is its prefix, the numeral its suffix, and
  the numeral reads back as that code. Both report actions show this very string in
  whatever world \<open>w2\<close> they run, so the last-error code at report time plays no part.
\<close>

theorem exception_message:
  "m_info (fst (ApplicationException_ctor lpInfo w)) =
     lpInfo @ L '' | Error code : '' @ to_wstring (unat (last_error w)) \<and>
   prefix lpInfo (m_info (fst (ApplicationException_ctor lpInfo w))) \<and>
   suffix (to_wstring (unat (last_error w))) (m_info (fst (ApplicationException_ctor lpInfo w))) \<and>
   of_digits (to_wstring (unat (last_error w))) = unat (last_error w) \<and>
   trace (ShowMessageBox (fst (ApplicationException_ctor lpInfo w)) w2) =
     trace w2 @ [Call_MessageBoxW
       (lpInfo @ L '' | Error code : '' @ to_wstring (unat (last_error w)))] \<and>
   trace (ShowDebugOutput (fst (ApplicationException_ctor lpInfo w)) w2) =
     trace w2 @ [Call_OutputDebugStringW
       (lpInfo @ L '' | Error code : '' @ to_wstring (unat (last_error w)))]"
  by (simp add: ApplicationException_ctor_def ShowMessageBox_def ShowDebugOutput_def log_def
      of_digits_to_wstring suffix_def)

subsection \<open>Sequencing\<close>

lemma seq_Returned: "m w = (Returned a, w1) \<Longrightarrow> seq m f w = f a w1"
  by (simp add: seq_def)

lemma seq_ReturnedE:
  assumes "seq m f w = (Returned b, w')"
  obtains a w1 where "m w = (Returned a, w1)" and "f a w1 = (Returned b, w')"
proof -
  obtain r w1 where mw: "m w = (r, w1)"
    by (cases "m w")
  with assms obtain a where "r = Returned a" and "f a w1 = (Returned b, w')"
    by (cases r) (simp_all add: seq_def)
  with mw that show thesis
    by simp
qed

lemma seq_ret: "seq (ret a) f = f a"
  by (rule ext) (simp add: seq_def ret_def)

lemma seq_assoc: "seq (seq m f) g = seq m (\<lambda>a. seq (f a) g)"
  by (rule ext) (simp add: seq_def split: prod.splits outcome.splits)


subsection \<open>The window procedure\<close>

lemmas WndProc_defs = WndProc_def find_shell_def dispatch_switch_def

lemma dispatch_switch_other:
  "uMsg \<notin> set routed_messages \<Longrightarrow>
   dispatch_switch pf hk p hWnd uMsg wParam lParam =
     seq (invoke p (HandleOtherMessages_call uMsg) (HandleOtherMessages hk uMsg))
       (\<lambda>handled. if handled \<noteq> 0 then ret (Some 1) else ret None)"
  by (simp add: dispatch_switch_def routed_messages_def)

lemma find_shell_other:
  "uMsg \<noteq> WM_NCCREATE \<Longrightarrow>
   find_shell hWnd uMsg lParam w =
     (Returned (slot_value w hWnd),
      (if window_slot w hWnd = None
       then (log (Call_GetWindowLongPtr hWnd) w)\<lparr>last_error := ERROR_INVALID_WINDOW_HANDLE\<rparr>
       else log (Call_GetWindowLongPtr hWnd) w))"
  by (simp add: find_shell_def GetWindowLongPtr_def slot_value_def NULL_def split: option.split)

lemma find_shell_NCCREATE:
  "create_structs w lParam = Some cs \<Longrightarrow> deref w (lpCreateParams cs) = Some obj \<Longrightarrow>
   find_shell hWnd WM_NCCREATE lParam w =
     (Returned (lpCreateParams cs),
      (if window_slot w hWnd = None
       then (log (Call_SetWindowLongPtr hWnd (lpCreateParams cs)) w)
              \<lparr>last_error := ERROR_INVALID_WINDOW_HANDLE,
               objects := (objects w)(lpCreateParams cs \<mapsto> obj\<lparr>m_hWnd := hWnd\<rparr>)\<rparr>
       else (log (Call_SetWindowLongPtr hWnd (lpCreateParams cs)) w)
              \<lparr>user_data := (user_data w)(hWnd \<mapsto> lpCreateParams cs),
               objects := (objects w)(lpCreateParams cs \<mapsto> obj\<lparr>m_hWnd := hWnd\<rparr>)\<rparr>))"
  by (auto simp add: find_shell_def prim_defs split: option.splits if_splits)

lemma WndProc_other:
  fixes hk :: "('d, 'x) hooks"
  assumes "uMsg \<notin> set routed_messages"
      and "find_shell hWnd uMsg lParam w = ((Returned p :: ('x, ptr) outcome), w1)"
      and "p \<noteq> NULL"
  shows "WndProc pf hk hWnd uMsg wParam lParam w =
     seq (invoke p (HandleOtherMessages_call uMsg) (HandleOtherMessages hk uMsg))
       (\<lambda>handled. if handled \<noteq> 0 then ret 1 else DefWindowProc pf hWnd uMsg wParam lParam) w1"
proof -
  have "WndProc pf hk hWnd uMsg wParam lParam w =
      seq (dispatch_switch pf hk p hWnd uMsg wParam lParam)
        (\<lambda>r. case r of Some v \<Rightarrow> ret v | None \<Rightarrow> DefWindowProc pf hWnd uMsg wParam lParam) w1"
    using assms(3)
    by (simp add: WndProc_def
        seq_Returned [of "find_shell hWnd uMsg lParam" w p w1, OF assms(2)])
  also have "\<dots> =
      seq (invoke p (HandleOtherMessages_call uMsg) (HandleOtherMessages hk uMsg))
        (\<lambda>handled. seq (if handled \<noteq> 0 then ret (Some 1) else ret None)
           (\<lambda>r. case r of Some v \<Rightarrow> ret v | None \<Rightarrow> DefWindowProc pf hWnd uMsg wParam lParam)) w1"
    by (simp only: dispatch_switch_other [OF assms(1)] seq_assoc)
  also have "(\<lambda>handled. seq (if handled \<noteq> 0 then ret (Some 1) else ret None)
           (\<lambda>r. case r of Some v \<Rightarrow> ret v | None \<Rightarrow> DefWindowProc pf hWnd uMsg wParam lParam)) =
      (\<lambda>handled. if handled \<noteq> 0 then ret 1 else DefWindowProc pf hWnd uMsg wParam lParam)"
    by (rule ext) (simp add: seq_ret)
  finally show ?thesis .
qed

lemma WndProc_route:
  "WndProc pf hk hWnd uMsg wParam lParam =
     seq (find_shell hWnd uMsg lParam) (route pf hk hWnd uMsg wParam lParam)"
  by (simp add: WndProc_def route_def [abs_def])

text \<open>
  C2 (as amended). A paint message for a window whose slot holds the pointer \<open>p\<close> to an
  object: the window procedure calls \<open>BeginPaint\<close>, then \<open>OnPaint\<close> once, with the
  device context and paint structure \<open>BeginPaint\<close> gave. When \<open>OnPaint\<close> returns,
  \<open>EndPaint\<close> follows and the procedure returns \<open>TRUE\<close>. When \<open>OnPaint\<close> raises, the
  exception leaves the window procedure and \<open>EndPaint\<close> is not called: nothing in
  \<open>WndProc\<close> catches an exception or releases the paint session on unwinding.
\<close>

theorem paint_bracket:
  assumes "slot_value w hWnd = p" and "deref w p = Some obj"
  shows "(\<forall>d. OnPaint hk (ps_hdc (paint_info pf hWnd)) (paint_info pf hWnd) obj = Inr d \<longrightarrow>
            fst (WndProc pf hk hWnd WM_PAINT wParam lParam w) = Returned 1 \<and>
            calls_since w (snd (WndProc pf hk hWnd WM_PAINT wParam lParam w)) =
              [Call_GetWindowLongPtr hWnd, Call_BeginPaint hWnd,
               Hook p (OnPaint_call (ps_hdc (paint_info pf hWnd)) (paint_info pf hWnd)),
               Call_EndPaint hWnd (paint_info pf hWnd)]) \<and>
         (\<forall>e. OnPaint hk (ps_hdc (paint_info pf hWnd)) (paint_info pf hWnd) obj = Inl e \<longrightarrow>
            fst (WndProc pf hk hWnd WM_PAINT wParam lParam w) = Raised (Hook_Raised e) \<and>
            calls_since w (snd (WndProc pf hk hWnd WM_PAINT wParam lParam w)) =
              [Call_GetWindowLongPtr hWnd, Call_BeginPaint hWnd,
               Hook p (OnPaint_call (ps_hdc (paint_info pf hWnd)) (paint_info pf hWnd))])"
  using assms
  by (auto simp add: WndProc_defs prim_defs calls_since_def slot_value_def msg_defs
      split: if_splits option.splits)

theorem paint_bracket_witness:
  "(fst (WndProc example_platform (default_hooks :: (unit, string) hooks) 0x50 WM_PAINT 0 0
          example_world) = Returned 1 \<and>
    calls_since example_world
      (snd (WndProc example_platform (default_hooks :: (unit, string) hooks) 0x50 WM_PAINT 0 0
             example_world)) =
      [Call_GetWindowLongPtr 0x50, Call_BeginPaint 0x50,
       Hook 0x1000 (OnPaint_call 0x77 \<lparr>ps_hdc = 0x77, ps_fErase = 0, ps_rcPaint = (0, 0, 640, 480)\<rparr>),
       Call_EndPaint 0x50 \<lparr>ps_hdc = 0x77, ps_fErase = 0, ps_rcPaint = (0, 0, 640, 480)\<rparr>]) \<and>
   (fst (WndProc example_platform raising_hooks 0x50 WM_PAINT 0 0 example_world) =
      Raised (Hook_Raised ''paint'') \<and>
    calls_since example_world
      (snd (WndProc example_platform raising_hooks 0x50 WM_PAINT 0 0 example_world)) =
      [Call_GetWindowLongPtr 0x50, Call_BeginPaint 0x50,
       Hook 0x1000 (OnPaint_call 0x77 \<lparr>ps_hdc = 0x77, ps_fErase = 0, ps_rcPaint = (0, 0, 640, 480)\<rparr>)])"
proof -
  have slot: "slot_value example_world 0x50 = 0x1000"
    by (simp add: example_defs slot_value_def window_slot_def NULL_def)
  have obj: "deref example_world 0x1000 = Some \<lparr>m_hInstance = 7, m_hWnd = 0x50, derived = ()\<rparr>"
    by (simp add: example_defs deref_def NULL_def)
  show ?thesis
    using paint_bracket [OF slot obj, of "default_hooks :: (unit, string) hooks"
        example_platform 0 0]
      paint_bracket [OF slot obj, of raising_hooks example_platform 0 0]
    by (simp add: example_defs)
qed

theorem paint_raise_counterexample:
  "fst (WndProc example_platform raising_hooks 0x50 WM_PAINT 0 0 example_world) =
     Raised (Hook_Raised ''paint'') \<and>
   trace (snd (WndProc example_platform raising_hooks 0x50 WM_PAINT 0 0 example_world)) =
     [Call_GetWindowLongPtr 0x50, Call_BeginPaint 0x50,
      Hook 0x1000 (OnPaint_call 0x77 \<lparr>ps_hdc = 0x77, ps_fErase = 0, ps_rcPaint = (0, 0, 640, 480)\<rparr>)] \<and>
   filter is_EndPaint
     (trace (snd (WndProc example_platform raising_hooks 0x50 WM_PAINT 0 0 example_world))) = []"
  by (simp add: WndProc_defs prim_defs example_defs msg_defs NULL_def)

text \<open>
  C3 (as amended). A close message for a window whose slot holds the pointer \<open>p\<close> to an
  object: the window procedure calls \<open>OnClose\<close> once. When \<open>OnClose\<close> returns,
  \<open>PostQuitMessage(0)\<close> follows, the quit record is queued and the procedure returns
  \<open>TRUE\<close>. When \<open>OnClose\<close> raises, the exception leaves the window procedure and no
  quit signal is posted.
\<close>

theorem close_posts_quit:
  assumes "slot_value w hWnd = p" and "deref w p = Some obj"
  shows "(\<forall>d. OnClose hk obj = Inr d \<longrightarrow>
            fst (WndProc pf hk hWnd WM_CLOSE wParam lParam w) = Returned 1 \<and>
            calls_since w (snd (WndProc pf hk hWnd WM_CLOSE wParam lParam w)) =
              [Call_GetWindowLongPtr hWnd, Hook p OnClose_call, Call_PostQuitMessage 0] \<and>
            queue (snd (WndProc pf hk hWnd WM_CLOSE wParam lParam w)) = queue w @ [quit_MSG 0]) \<and>
         (\<forall>e. OnClose hk obj = Inl e \<longrightarrow>
            fst (WndProc pf hk hWnd WM_CLOSE wParam lParam w) = Raised (Hook_Raised e) \<and>
            calls_since w (snd (WndProc pf hk hWnd WM_CLOSE wParam lParam w)) =
              [Call_GetWindowLongPtr hWnd, Hook p OnClose_call] \<and>
            queue (snd (WndProc pf hk hWnd WM_CLOSE wParam lParam w)) = queue w)"
  using assms
  by (auto simp add: WndProc_defs prim_defs calls_since_def slot_value_def msg_defs
      split: if_splits option.splits)

theorem close_posts_quit_witness:
  "(fst (WndProc example_platform (default_hooks :: (unit, string) hooks) 0x50 WM_CLOSE 0 0
          example_world) = Returned 1 \<and>
    calls_since example_world
      (snd (WndProc example_platform (default_hooks :: (unit, string) hooks) 0x50 WM_CLOSE 0 0
             example_world)) =
      [Call_GetWindowLongPtr 0x50, Hook 0x1000 OnClose_call, Call_PostQuitMessage 0] \<and>
    queue (snd (WndProc example_platform (default_hooks :: (unit, string) hooks) 0x50 WM_CLOSE 0 0
             example_world)) = [quit_MSG 0]) \<and>
   (fst (WndProc example_platform raising_hooks 0x50 WM_CLOSE 0 0 example_world) =
      Raised (Hook_Raised ''close'') \<and>
    calls_since example_world
      (snd (WndProc example_platform raising_hooks 0x50 WM_CLOSE 0 0 example_world)) =
      [Call_GetWindowLongPtr 0x50, Hook 0x1000 OnClose_call] \<and>
    queue (snd (WndProc example_platform raising_hooks 0x50 WM_CLOSE 0 0 example_world)) = [])"
proof -
  have slot: "slot_value example_world 0x50 = 0x1000"
    by (simp add: example_defs slot_value_def window_slot_def NULL_def)
  have obj: "deref example_world 0x1000 = Some \<lparr>m_hInstance = 7, m_hWnd = 0x50, derived = ()\<rparr>"
    by (simp add: example_defs deref_def NULL_def)
  show ?thesis
    using close_posts_quit [OF slot obj, of "default_hooks :: (unit, string) hooks"
        example_platform 0 0]
      close_posts_quit [OF slot obj, of raising_hooks example_platform 0 0]
    by (simp add: example_defs)
qed

theorem close_raise_counterexample:
  "fst (WndProc example_platform raising_hooks 0x50 WM_CLOSE 0 0 example_world) =
     Raised (Hook_Raised ''close'') \<and>
   trace (snd (WndProc example_platform raising_hooks 0x50 WM_CLOSE 0 0 example_world)) =
     [Call_GetWindowLongPtr 0x50, Hook 0x1000 OnClose_call] \<and>
   filter is_PostQuitMessage
     (trace (snd (WndProc example_platform raising_hooks 0x50 WM_CLOSE 0 0 example_world))) = [] \<and>
   queue (snd (WndProc example_platform raising_hooks 0x50 WM_CLOSE 0 0 example_world)) = []"
  by (simp add: WndProc_defs prim_defs example_defs msg_defs NULL_def)

text \<open>
  C9. A message other than \<open>WM_NCCREATE\<close> for a window whose user-data slot holds no
  shell pointer: the window procedure reads the slot and calls \<open>DefWindowProc\<close> with
  the message, whose result it returns. No hook is invoked and no object changes.
\<close>

theorem unassociated_falls_through:
  assumes "uMsg \<noteq> WM_NCCREATE" and "slot_value w hWnd = NULL"
  shows "fst (WndProc pf hk hWnd uMsg wParam lParam w) = Returned (def_result pf uMsg) \<and>
         calls_since w (snd (WndProc pf hk hWnd uMsg wParam lParam w)) =
           [Call_GetWindowLongPtr hWnd, Call_DefWindowProc hWnd uMsg wParam lParam] \<and>
         filter is_hook (calls_since w (snd (WndProc pf hk hWnd uMsg wParam lParam w))) = [] \<and>
         objects (snd (WndProc pf hk hWnd uMsg wParam lParam w)) = objects w"
  using assms
  by (auto simp add: WndProc_def find_shell_def prim_defs calls_since_def slot_value_def NULL_def
      split: if_splits option.splits)

theorem unassociated_falls_through_witness:
  "WM_PAINT \<noteq> WM_NCCREATE \<and> slot_value unassociated_world 0x60 = NULL \<and>
   fst (WndProc example_platform raising_hooks 0x60 WM_PAINT 0 0 unassociated_world) = Returned 0 \<and>
   calls_since unassociated_world
     (snd (WndProc example_platform raising_hooks 0x60 WM_PAINT 0 0 unassociated_world)) =
     [Call_GetWindowLongPtr 0x60, Call_DefWindowProc 0x60 WM_PAINT 0 0]"
proof -
  have msg: "WM_PAINT \<noteq> WM_NCCREATE"
    by (simp add: msg_defs)
  have slot: "slot_value unassociated_world 0x60 = NULL"
    by (simp add: example_defs slot_value_def window_slot_def NULL_def)
  show ?thesis
    using msg slot unassociated_falls_through [OF msg slot, of example_platform raising_hooks 0 0]
    by (simp add: example_platform_def msg_defs)
qed

text \<open>
  C6. A message the \<open>switch\<close> has no case for, sent to a window associated with the
  object at \<open>p\<close> (by its slot; for \<open>WM_NCCREATE\<close>, by the creation data, in which
  case the handle is written into the object first): \<open>HandleOtherMessages\<close> is called
  once with the message identifier. If it returns non-zero the procedure returns
  \<open>TRUE\<close> and \<open>DefWindowProc\<close> is not called; if it returns \<open>FALSE\<close>,
  \<open>DefWindowProc\<close> is called next and its result returned.
\<close>

theorem other_messages_routing:
  assumes "uMsg \<notin> set routed_messages"
      and "if uMsg = WM_NCCREATE
           then map_option lpCreateParams (create_structs w lParam) = Some p
           else slot_value w hWnd = p"
      and "deref w p = Some obj"
  shows "\<forall>b d. HandleOtherMessages hk uMsg
                 (if uMsg = WM_NCCREATE then obj\<lparr>m_hWnd := hWnd\<rparr> else obj) = Inr (b, d) \<longrightarrow>
           (b \<noteq> 0 \<longrightarrow>
              fst (WndProc pf hk hWnd uMsg wParam lParam w) = Returned 1 \<and>
              calls_since w (snd (WndProc pf hk hWnd uMsg wParam lParam w)) =
                [if uMsg = WM_NCCREATE then Call_SetWindowLongPtr hWnd p
                 else Call_GetWindowLongPtr hWnd,
                 Hook p (HandleOtherMessages_call uMsg)]) \<and>
           (b = 0 \<longrightarrow>
              fst (WndProc pf hk hWnd uMsg wParam lParam w) = Returned (def_result pf uMsg) \<and>
              calls_since w (snd (WndProc pf hk hWnd uMsg wParam lParam w)) =
                [if uMsg = WM_NCCREATE then Call_SetWindowLongPtr hWnd p
                 else Call_GetWindowLongPtr hWnd,
                 Hook p (HandleOtherMessages_call uMsg),
                 Call_DefWindowProc hWnd uMsg wParam lParam])"
proof (cases "uMsg = WM_NCCREATE")
  case True
  with assms(2) obtain cs where cs: "create_structs w lParam = Some cs" "lpCreateParams cs = p"
    by auto
  from assms(3) have nz: "p \<noteq> NULL"
    by (auto simp add: deref_def split: if_splits)
  note fs = find_shell_NCCREATE [of w lParam cs obj hWnd, unfolded cs(2), OF cs(1) assms(3),
      folded True]
  show ?thesis
    unfolding WndProc_other [OF assms(1) fs nz]
    using True assms(3) nz
    by (auto simp add: seq_def ret_def invoke_def log_def deref_def DefWindowProc_def
        calls_since_def)
next
  case False
  with assms(2) have slot: "slot_value w hWnd = p"
    by simp
  from assms(3) have nz: "p \<noteq> NULL"
    by (auto simp add: deref_def split: if_splits)
  note fs = find_shell_other [OF False, of hWnd lParam w, unfolded slot]
  show ?thesis
    unfolding WndProc_other [OF assms(1) fs nz]
    using False assms(3) nz
    by (auto simp add: seq_def ret_def invoke_def log_def deref_def DefWindowProc_def
        calls_since_def)
qed

theorem other_messages_routing_witness:
  "(fst (WndProc example_platform handling_hooks 0x50 0x0005 0 0 example_world) = Returned 1 \<and>
    calls_since example_world
      (snd (WndProc example_platform handling_hooks 0x50 0x0005 0 0 example_world)) =
      [Call_GetWindowLongPtr 0x50, Hook 0x1000 (HandleOtherMessages_call 0x0005)]) \<and>
   (fst (WndProc example_platform (default_hooks :: (unit, string) hooks) 0x50 0x0005 0 0
           example_world) = Returned 0 \<and>
    calls_since example_world
      (snd (WndProc example_platform (default_hooks :: (unit, string) hooks) 0x50 0x0005 0 0
              example_world)) =
      [Call_GetWindowLongPtr 0x50, Hook 0x1000 (HandleOtherMessages_call 0x0005),
       Call_DefWindowProc 0x50 0x0005 0 0]) \<and>
   (fst (WndProc example_platform (default_hooks :: (unit, string) hooks) 0x50 WM_NCCREATE 0 0x900
           creating_world) = Returned 1 \<and>
    calls_since creating_world
      (snd (WndProc example_platform (default_hooks :: (unit, string) hooks) 0x50 WM_NCCREATE 0
              0x900 creating_world)) =
      [Call_SetWindowLongPtr 0x50 0x1000, Hook 0x1000 (HandleOtherMessages_call WM_NCCREATE),
       Call_DefWindowProc 0x50 WM_NCCREATE 0 0x900])"
proof -
  have other: "(0x0005 :: UINT) \<notin> set routed_messages"
    by (simp add: routed_messages_def msg_defs)
  have slot: "if (0x0005 :: UINT) = WM_NCCREATE
      then map_option lpCreateParams (create_structs example_world 0) = Some 0x1000
      else slot_value example_world 0x50 = 0x1000"
    by (simp add: example_defs slot_value_def window_slot_def NULL_def msg_defs)
  have obj: "deref example_world 0x1000 = Some \<lparr>m_hInstance = 7, m_hWnd = 0x50, derived = ()\<rparr>"
    by (simp add: example_defs deref_def NULL_def)
  have create: "WM_NCCREATE \<notin> set routed_messages"
    by (simp add: routed_messages_def msg_defs)
  have data: "if WM_NCCREATE = WM_NCCREATE
      then map_option lpCreateParams (create_structs creating_world 0x900) = Some 0x1000
      else slot_value creating_world 0x50 = 0x1000"
    by (simp add: example_defs)
  have obj': "deref creating_world 0x1000 = Some \<lparr>m_hInstance = 0, m_hWnd = 0, derived = ()\<rparr>"
    by (simp add: example_defs deref_def NULL_def)
  show ?thesis
    using other_messages_routing [OF other slot obj, of handling_hooks example_platform 0]
      other_messages_routing [OF other slot obj, of "default_hooks :: (unit, string) hooks"
        example_platform 0]
      other_messages_routing [OF create data obj', of "default_hooks :: (unit, string) hooks"
        example_platform 0]
    by (simp add: example_defs msg_defs TRUE_def FALSE_def)
qed


subsection \<open>What every operation respects\<close>

lemma orderlyI:
  "(\<And>w. prefix (trace w) (trace (snd (m w)))) \<Longrightarrow> (\<And>w e. fst (m w) \<noteq> Raised (Thrown e)) \<Longrightarrow>
   orderly m"
  by (simp add: orderly_def)

lemma orderly_ret: "orderly (ret a)"
  by (simp add: orderly_def ret_def)

lemma orderly_seq:
  assumes "orderly m" and "\<And>a. orderly (f a)"
  shows "orderly (seq m f)"
proof (rule orderlyI)
  fix w
  obtain r w1 where mw: "m w = (r, w1)"
    by (cases "m w")
  from assms(1) have p1: "prefix (trace w) (trace w1)" and nt: "\<And>e. r \<noteq> Raised (Thrown e)"
    using mw by (auto simp add: orderly_def dest: spec [of _ w])
  show "prefix (trace w) (trace (snd (seq m f w)))"
  proof (cases r)
    case (Returned a)
    from assms(2) [of a] have "prefix (trace w1) (trace (snd (f a w1)))"
      by (simp add: orderly_def)
    with p1 show ?thesis
      using mw Returned by (auto simp add: seq_def)
  qed (use mw p1 in \<open>simp_all add: seq_def\<close>)
  fix e
  show "fst (seq m f w) \<noteq> Raised (Thrown e)"
  proof (cases r)
    case (Returned a)
    from assms(2) [of a] have "fst (f a w1) \<noteq> Raised (Thrown e)"
      by (simp add: orderly_def)
    then show ?thesis
      using mw Returned by (simp add: seq_def)
  qed (use mw nt in \<open>simp_all add: seq_def\<close>)
qed

lemma orderly_if: "orderly m \<Longrightarrow> orderly n \<Longrightarrow> orderly (if c then m else n)"
  by simp

lemma orderly_prims:
  "orderly (load p)" "orderly (store_m_hInstance p h)" "orderly (store_m_hWnd p h)"
  "orderly (read_CREATESTRUCT lp)" "orderly (invoke p c body)"
  "orderly (SetWindowLongPtr hWnd v)" "orderly (GetWindowLongPtr hWnd)"
  "orderly (BeginPaint pf hWnd)" "orderly (EndPaint hWnd ps)" "orderly (PostQuitMessage n)"
  "orderly (DefWindowProc pf hWnd uMsg wParam lParam)" "orderly (TranslateMessage msg)"
  "orderly (GetModuleHandleW pf)" "orderly (RegisterClassW pf wc)"
  by (auto simp add: orderly_def prim_defs split: option.splits sum.splits)

lemma orderly_find_shell: "orderly (find_shell hWnd uMsg lParam)"
  unfolding find_shell_def
  by (intro orderly_if orderly_seq orderly_prims orderly_ret)

lemma orderly_dispatch_switch: "orderly (dispatch_switch pf hk p hWnd uMsg wParam lParam)"
  unfolding dispatch_switch_def
  by (intro orderly_if orderly_seq orderly_prims orderly_ret)
    (auto intro!: orderly_seq orderly_prims orderly_ret)

lemma orderly_route: "orderly (route pf hk hWnd uMsg wParam lParam p)"
  unfolding route_def
  by (intro orderly_seq orderly_if orderly_dispatch_switch orderly_ret)
    (auto split: option.splits intro: orderly_prims orderly_ret)

lemma orderly_WndProc: "orderly (WndProc pf hk hWnd uMsg wParam lParam)"
  unfolding WndProc_def
  by (intro orderly_seq orderly_find_shell orderly_if orderly_dispatch_switch orderly_ret)
    (auto split: option.splits intro: orderly_prims orderly_ret)

lemma WndProc_grows: "prefix (trace w) (trace (snd (WndProc pf hk hWnd uMsg wParam lParam w)))"
  using orderly_WndProc [of pf hk hWnd uMsg wParam lParam] by (simp add: orderly_def)

lemma orderly_DispatchMessageW: "orderly (DispatchMessageW pf hk msg)"
proof (rule orderlyI)
  fix w :: "'a world"
  note W = orderly_WndProc [of pf hk "msg_hwnd msg" "msg_message msg" "msg_wParam msg"
      "msg_lParam msg", unfolded orderly_def, rule_format, of "log (Call_DispatchMessageW msg) w"]
  show "prefix (trace w) (trace (snd (DispatchMessageW pf hk msg w)))"
    using W by (auto simp add: DispatchMessageW_def log_def split: option.splits dest: append_prefixD)
  fix e
  show "fst (DispatchMessageW pf hk msg w) \<noteq> Raised (Thrown e)"
    using W by (auto simp add: DispatchMessageW_def log_def split: option.splits)
qed

lemma DispatchMessageW_trace:
  "prefix (trace w @ [Call_DispatchMessageW msg]) (trace (snd (DispatchMessageW pf hk msg w)))"
  using orderly_WndProc [of pf hk "msg_hwnd msg" "msg_message msg" "msg_wParam msg"
      "msg_lParam msg", unfolded orderly_def, rule_format, of "log (Call_DispatchMessageW msg) w"]
  by (auto simp add: DispatchMessageW_def log_def split: option.splits)

lemma send_all_grows: "prefix (trace w) (trace (snd (send_all pf hk h ms w)))"
proof (induction ms arbitrary: w)
  case Nil
  show ?case by simp
next
  case (Cons a ms)
  obtain u wp lp where a: "a = (u, wp, lp)"
    by (cases a)
  obtain r w1 where s: "WndProc pf hk h u wp lp w = (r, w1)"
    by (cases "WndProc pf hk h u wp lp w")
  from WndProc_grows [of w pf hk h u wp lp] s have g1: "prefix (trace w) (trace w1)"
    by simp
  show ?case
    using a s g1 Cons.IH [of w1]
    by (cases r) (auto intro: prefix_order.trans)
qed

lemma send_creation_grows: "prefix (trace w) (trace (snd (send_creation pf hk h ms w)))"
proof (induction ms arbitrary: w)
  case Nil
  show ?case by simp
next
  case (Cons a ms)
  obtain u wp lp where a: "a = (u, wp, lp)"
    by (cases a)
  obtain r w1 where s: "WndProc pf hk h u wp lp w = (r, w1)"
    by (cases "WndProc pf hk h u wp lp w")
  from WndProc_grows [of w pf hk h u wp lp] s have g1: "prefix (trace w) (trace w1)"
    by simp
  show ?case
    using a s g1 Cons.IH [of w1]
    by (cases r) (auto intro: prefix_order.trans)
qed

lemma frame_refl: "frame w w"
  by (simp add: frame_def)

lemma frame_trans: "frame w w1 \<Longrightarrow> frame w1 w2 \<Longrightarrow> frame w w2"
  by (simp add: frame_def)

lemma framed_ret: "framed (ret a)"
  by (simp add: framed_def ret_def frame_refl)

lemma framed_seq:
  assumes "framed m" and "\<And>a. framed (f a)"
  shows "framed (seq m f)"
  unfolding framed_def
proof
  fix w
  obtain r w1 where mw: "m w = (r, w1)"
    by (cases "m w")
  from assms(1) have f1: "frame w w1"
    using mw by (auto simp add: framed_def dest: spec [of _ w])
  show "frame w (snd (seq m f w))"
  proof (cases r)
    case (Returned a)
    from assms(2) [of a] have "frame w1 (snd (f a w1))"
      by (simp add: framed_def)
    with f1 show ?thesis
      using mw Returned by (auto simp add: seq_def intro: frame_trans)
  qed (use mw f1 in \<open>simp_all add: seq_def\<close>)
qed

lemma framed_if: "framed m \<Longrightarrow> framed n \<Longrightarrow> framed (if c then m else n)"
  by simp

lemma framed_prims:
  "framed (load p)" "framed (invoke p c body)" "framed (GetWindowLongPtr hWnd)"
  "framed (BeginPaint pf hWnd)" "framed (EndPaint hWnd ps)" "framed (PostQuitMessage n)"
  "framed (DefWindowProc pf hWnd uMsg wParam lParam)"
  by (auto simp add: framed_def frame_def prim_defs fun_eq_iff split: option.splits sum.splits)

lemma framed_dispatch_switch: "framed (dispatch_switch pf hk p hWnd uMsg wParam lParam)"
  unfolding dispatch_switch_def
  by (intro framed_if framed_seq framed_prims framed_ret)
    (auto intro!: framed_seq framed_prims framed_ret)

lemma framed_route: "framed (route pf hk hWnd uMsg wParam lParam p)"
  unfolding route_def
  by (intro framed_seq framed_if framed_dispatch_switch framed_ret)
    (auto split: option.splits intro: framed_prims framed_ret)

lemma framed_WndProc:
  "uMsg \<noteq> WM_NCCREATE \<Longrightarrow> framed (WndProc pf hk hWnd uMsg wParam lParam)"
  unfolding WndProc_route
  by (intro framed_seq framed_route) (simp add: find_shell_def framed_prims)

lemma frame_send_all:
  "WM_NCCREATE \<notin> fst ` set ms \<Longrightarrow> frame w (snd (send_all pf hk h ms w))"
proof (induction ms arbitrary: w)
  case Nil
  show ?case by (simp add: frame_refl)
next
  case (Cons a ms)
  obtain u wp lp where a: "a = (u, wp, lp)"
    by (cases a)
  with Cons.prems have u: "u \<noteq> WM_NCCREATE" and rest: "WM_NCCREATE \<notin> fst ` set ms"
    by auto
  obtain r w1 where s: "WndProc pf hk h u wp lp w = (r, w1)"
    by (cases "WndProc pf hk h u wp lp w")
  from framed_WndProc [OF u, of pf hk h wp lp] s have f1: "frame w w1"
    by (auto simp add: framed_def dest: spec [of _ w])
  show ?case
    using a s f1 Cons.IH [OF rest, of w1]
    by (cases r) (auto intro: frame_trans)
qed

lemma frame_send_creation:
  "WM_NCCREATE \<notin> fst ` set ms \<Longrightarrow> frame w (snd (send_creation pf hk h ms w))"
proof (induction ms arbitrary: w)
  case Nil
  show ?case by (simp add: frame_refl)
next
  case (Cons a ms)
  obtain u wp lp where a: "a = (u, wp, lp)"
    by (cases a)
  with Cons.prems have u: "u \<noteq> WM_NCCREATE" and rest: "WM_NCCREATE \<notin> fst ` set ms"
    by auto
  obtain r w1 where s: "WndProc pf hk h u wp lp w = (r, w1)"
    by (cases "WndProc pf hk h u wp lp w")
  from framed_WndProc [OF u, of pf hk h wp lp] s have f1: "frame w w1"
    by (auto simp add: framed_def dest: spec [of _ w])
  show ?case
    using a s f1 Cons.IH [OF rest, of w1]
    by (cases r) (auto intro: frame_trans)
qed

text \<open>
  The creation notification associates the window with the object the creation data
  names, and writes the handle into that object.
\<close>

lemma WndProc_NCCREATE:
  fixes hk :: "('d, 'x) hooks"
  assumes "WndProc pf hk h WM_NCCREATE wp lp w = (Returned r, w')"
      and "create_structs w lp = Some cs" and "window_slot w h = Some v"
  shows "user_data w' h = Some (lpCreateParams cs)"
    and "map_option m_hWnd (objects w' (lpCreateParams cs)) = Some h"
    and "lpCreateParams cs \<noteq> NULL"
    and "create_structs w' = create_structs w"
    and "prefix (trace w @ [Call_SetWindowLongPtr h (lpCreateParams cs)]) (trace w')"
proof -
  let ?p = "lpCreateParams cs"
  have "\<exists>obj. deref w ?p = Some obj"
  proof (rule ccontr)
    assume "\<not> (\<exists>obj. deref w ?p = Some obj)"
    then have "deref w ?p = None"
      by simp
    then have "fst (find_shell h WM_NCCREATE lp w :: ('x, ptr) outcome \<times> 'd world) = Fault"
      using assms(2,3)
      by (auto simp add: find_shell_def prim_defs split: option.splits if_splits)
    then have "fst (WndProc pf hk h WM_NCCREATE wp lp w) = Fault"
      by (cases "find_shell h WM_NCCREATE lp w :: ('x, ptr) outcome \<times> 'd world")
        (simp add: WndProc_route seq_def)
    with assms(1) show False
      by simp
  qed
  then obtain obj where obj: "deref w ?p = Some obj"
    by blast
  then show nz: "?p \<noteq> NULL"
    by (auto simp add: deref_def split: if_splits)
  define w1 where "w1 = (log (Call_SetWindowLongPtr h ?p) w)
      \<lparr>user_data := (user_data w)(h \<mapsto> ?p),
       objects := (objects w)(?p \<mapsto> obj\<lparr>m_hWnd := h\<rparr>)\<rparr>"
  have fs: "find_shell h WM_NCCREATE lp w = ((Returned ?p :: ('x, ptr) outcome), w1)"
    using find_shell_NCCREATE [OF assms(2) obj, of h] assms(3) by (simp add: w1_def)
  have W: "WndProc pf hk h WM_NCCREATE wp lp w = route pf hk h WM_NCCREATE wp lp ?p w1"
    by (simp add: WndProc_route
        seq_Returned [of "find_shell h WM_NCCREATE lp" w ?p w1, OF fs])
  have R: "route pf hk h WM_NCCREATE wp lp ?p w1 = (Returned r, w')"
    using W assms(1) by simp
  have fr: "frame w1 w'"
    using framed_route [of pf hk h WM_NCCREATE wp lp ?p, unfolded framed_def, rule_format, of w1]
    by (simp add: R)
  have gr: "prefix (trace w1) (trace w')"
    using orderly_route [of pf hk h WM_NCCREATE wp lp ?p, unfolded orderly_def, rule_format, of w1]
    by (simp add: R)
  show "user_data w' h = Some ?p"
    using fr by (simp add: frame_def w1_def)
  show "create_structs w' = create_structs w"
    using fr by (simp add: frame_def w1_def log_def)
  show "map_option m_hWnd (objects w' ?p) = Some h"
    using fr by (auto simp add: frame_def w1_def fun_eq_iff dest: spec [of _ ?p])
  show "prefix (trace w @ [Call_SetWindowLongPtr h ?p]) (trace w')"
    using gr by (simp add: w1_def log_def)
qed


subsection \<open>The pumps\<close>

lemma WaitMessage_failure:
  fixes hk :: "('d, 'x) hooks"
  assumes "GetMessageW pf zero_MSG w = ((Returned (- 1, m) :: ('x, BOOL \<times> MSG) outcome), w1)"
  shows "fst (WaitMessage pf hk w) =
           Raised (Thrown \<lparr>m_info = L ''Failed to get a message (GetMessageW)'' @
             L '' | Error code : '' @ to_wstring (unat (last_error w1))\<rparr>)"
    and "calls_since w (snd (WaitMessage pf hk w)) = [Call_GetMessageW, Call_GetLastError]"
proof -
  have t1: "trace w1 = trace w @ [Call_GetMessageW]"
    using assms by (auto simp add: GetMessageW_def log_def split: option.splits list.splits)
  have W: "WaitMessage pf hk w =
      throw_ApplicationException (L ''Failed to get a message (GetMessageW)'') w1"
    by (simp add: WaitMessage_def
        seq_Returned [of "GetMessageW pf zero_MSG" w "(- 1, m)" w1, OF assms])
  show "fst (WaitMessage pf hk w) =
           Raised (Thrown \<lparr>m_info = L ''Failed to get a message (GetMessageW)'' @
             L '' | Error code : '' @ to_wstring (unat (last_error w1))\<rparr>)"
    unfolding W by (simp add: throw_ApplicationException_def ApplicationException_ctor_def)
  show "calls_since w (snd (WaitMessage pf hk w)) = [Call_GetMessageW, Call_GetLastError]"
    unfolding W
    by (simp add: throw_ApplicationException_def ApplicationException_ctor_def log_def
        calls_since_def t1)
qed

lemma WaitMessage_success:
  fixes hk :: "('d, 'x) hooks"
  assumes g: "GetMessageW pf zero_MSG w = ((Returned (r, m) :: ('x, BOOL \<times> MSG) outcome), w1)"
      and "r \<noteq> - 1"
  shows "WaitMessage pf hk w =
           seq (DispatchMessageW pf hk m) (\<lambda>_. ret ()) (log (Call_TranslateMessage m) w1)"
    and "snd (WaitMessage pf hk w) =
           snd (DispatchMessageW pf hk m (log (Call_TranslateMessage m) w1))"
    and "prefix (trace w @ [Call_GetMessageW, Call_TranslateMessage m, Call_DispatchMessageW m])
           (trace (snd (WaitMessage pf hk w)))"
    and "fst (WaitMessage pf hk w) \<noteq> Raised (Thrown e)"
proof -
  have t1: "trace w1 = trace w @ [Call_GetMessageW]"
    using g by (auto simp add: GetMessageW_def log_def split: option.splits list.splits)
  define w2 where "w2 = log (Call_TranslateMessage m) w1"
  show W: "WaitMessage pf hk w =
           seq (DispatchMessageW pf hk m) (\<lambda>_. ret ()) (log (Call_TranslateMessage m) w1)"
    using assms(2)
    by (simp add: WaitMessage_def
        seq_Returned [of "GetMessageW pf zero_MSG" w "(r, m)" w1, OF g]
        seq_Returned [of "TranslateMessage m" w1 FALSE w2] TranslateMessage_def w2_def)
  obtain d w3 where d: "DispatchMessageW pf hk m w2 = (d, w3)"
    by (cases "DispatchMessageW pf hk m w2")
  have sn: "snd (WaitMessage pf hk w) = w3"
    unfolding W using d by (cases d) (simp_all add: seq_def ret_def w2_def)
  show "snd (WaitMessage pf hk w) =
           snd (DispatchMessageW pf hk m (log (Call_TranslateMessage m) w1))"
    using sn d by (simp add: w2_def)
  show "prefix (trace w @ [Call_GetMessageW, Call_TranslateMessage m, Call_DispatchMessageW m])
           (trace (snd (WaitMessage pf hk w)))"
    using DispatchMessageW_trace [of w2 m pf hk] d sn t1 by (simp add: w2_def log_def)
  show "fst (WaitMessage pf hk w) \<noteq> Raised (Thrown e)"
    unfolding W
    using orderly_DispatchMessageW [of pf hk m, unfolded orderly_def, rule_format, of w2] d
    by (cases d) (auto simp add: seq_def ret_def w2_def)
qed

lemma WaitMessage_blocked:
  fixes hk :: "('d, 'x) hooks"
  assumes "GetMessageW pf zero_MSG w = ((Blocked :: ('x, BOOL \<times> MSG) outcome), w1)"
  shows "fst (WaitMessage pf hk w) = Blocked"
  by (simp add: WaitMessage_def seq_def assms)

lemma GetMessageW_outcomes:
  "GetMessageW pf zero_MSG w = g \<Longrightarrow> (\<exists>r m. fst g = Returned (r, m)) \<or> fst g = Blocked"
  by (auto simp add: GetMessageW_def split: option.splits list.splits)

text \<open>
  C7. Let \<open>g\<close> be what \<open>GetMessageW\<close> answers. \<open>WaitMessage\<close> throws an
  \<open>ApplicationException\<close> exactly when \<open>GetMessageW\<close> returned \<open>-1\<close>; the exception
  then carries the retrieval description and the last-error code, and nothing is
  translated or dispatched. When \<open>GetMessageW\<close> returned a message with any other
  value, \<open>TranslateMessage\<close> and \<open>DispatchMessageW\<close> are called with that message, in
  this order, and \<open>WaitMessage\<close> ends in the world \<open>DispatchMessageW\<close> leaves.
\<close>

theorem WaitMessage_raises_iff:
  fixes hk :: "('d, 'x) hooks" and g :: "('x, BOOL \<times> MSG) outcome \<times> 'd world"
  assumes "GetMessageW pf zero_MSG w = g"
  shows "((\<exists>e. fst (WaitMessage pf hk w) = Raised (Thrown e)) \<longleftrightarrow>
            (\<exists>m. fst g = Returned (- 1, m))) \<and>
         (\<forall>m. fst g = Returned (- 1, m) \<longrightarrow>
            fst (WaitMessage pf hk w) =
              Raised (Thrown \<lparr>m_info = L ''Failed to get a message (GetMessageW)'' @
                L '' | Error code : '' @ to_wstring (unat (last_error (snd g)))\<rparr>) \<and>
            calls_since w (snd (WaitMessage pf hk w)) = [Call_GetMessageW, Call_GetLastError]) \<and>
         (\<forall>r m. fst g = Returned (r, m) \<and> r \<noteq> - 1 \<longrightarrow>
            prefix (trace w @ [Call_GetMessageW, Call_TranslateMessage m, Call_DispatchMessageW m])
              (trace (snd (WaitMessage pf hk w))) \<and>
            snd (WaitMessage pf hk w) =
              snd (DispatchMessageW pf hk m (log (Call_TranslateMessage m) (snd g))))"
proof -
  obtain o1 w1 where g: "g = (o1, w1)"
    by (cases g)
  consider (ret) r m where "o1 = Returned (r, m)" | (blocked) "o1 = Blocked"
    using GetMessageW_outcomes [OF assms] g by auto
  then show ?thesis
  proof cases
    case ret
    show ?thesis
    proof (cases "r = - 1")
      case True
      with ret g assms have "GetMessageW pf zero_MSG w = ((Returned (- 1, m) :: ('x, BOOL \<times> MSG) outcome), w1)"
        by simp
      from WaitMessage_failure [OF this, of hk] show ?thesis
        using ret g True by simp
    next
      case False
      from ret g assms have "GetMessageW pf zero_MSG w = ((Returned (r, m) :: ('x, BOOL \<times> MSG) outcome), w1)"
        by simp
      from WaitMessage_success(2-4) [OF this False, of hk] show ?thesis
        using ret g False by simp
    qed
  next
    case blocked
    with g assms have "GetMessageW pf zero_MSG w = ((Blocked :: ('x, BOOL \<times> MSG) outcome), w1)"
      by simp
    from WaitMessage_blocked [OF this, of hk] show ?thesis
      using blocked g by simp
  qed
qed

theorem WaitMessage_raises_iff_witness:
  "fst (WaitMessage failing_platform (default_hooks :: (unit, string) hooks) example_world) =
     Raised (Thrown \<lparr>m_info = L ''Failed to get a message (GetMessageW) | Error code : 1400''\<rparr>) \<and>
   calls_since example_world
     (snd (WaitMessage failing_platform (default_hooks :: (unit, string) hooks) example_world)) =
     [Call_GetMessageW, Call_GetLastError] \<and>
   prefix
     [Call_GetMessageW,
      Call_TranslateMessage \<lparr>msg_hwnd = 0x50, msg_message = WM_KEYDOWN, msg_wParam = 0x41,
        msg_lParam = 0, msg_time = 0, msg_pt = (0, 0)\<rparr>,
      Call_DispatchMessageW \<lparr>msg_hwnd = 0x50, msg_message = WM_KEYDOWN, msg_wParam = 0x41,
        msg_lParam = 0, msg_time = 0, msg_pt = (0, 0)\<rparr>]
     (trace (snd (WaitMessage example_platform (default_hooks :: (unit, string) hooks) key_world)))"
proof -
  have fail: "GetMessageW failing_platform zero_MSG example_world =
      ((Returned (- 1, zero_MSG) :: (string, BOOL \<times> MSG) outcome),
       (log Call_GetMessageW example_world)\<lparr>last_error := 1400\<rparr>)"
    by (simp add: GetMessageW_def example_defs)
  have key: "GetMessageW example_platform zero_MSG key_world =
      ((Returned (1, \<lparr>msg_hwnd = 0x50, msg_message = WM_KEYDOWN, msg_wParam = 0x41,
          msg_lParam = 0, msg_time = 0, msg_pt = (0, 0)\<rparr>) :: (string, BOOL \<times> MSG) outcome),
       (log Call_GetMessageW key_world)\<lparr>queue := []\<rparr>)"
    by (simp add: GetMessageW_def example_defs msg_defs)
  have "prefix (trace key_world @
      [Call_GetMessageW,
       Call_TranslateMessage \<lparr>msg_hwnd = 0x50, msg_message = WM_KEYDOWN, msg_wParam = 0x41,
         msg_lParam = 0, msg_time = 0, msg_pt = (0, 0)\<rparr>,
       Call_DispatchMessageW \<lparr>msg_hwnd = 0x50, msg_message = WM_KEYDOWN, msg_wParam = 0x41,
         msg_lParam = 0, msg_time = 0, msg_pt = (0, 0)\<rparr>])
     (trace (snd (WaitMessage example_platform (default_hooks :: (unit, string) hooks) key_world)))"
    by (rule WaitMessage_raises_iff [OF key, of "default_hooks :: (unit, string) hooks",
          THEN conjunct2, THEN conjunct2, rule_format, of 1, THEN conjunct1]) simp
  then show ?thesis
    using WaitMessage_raises_iff [OF fail, of "default_hooks :: (unit, string) hooks"]
    by (simp add: L_def to_wstring.simps key_world_def example_world_def log_def)
qed

text \<open>
  C10. When the next message of the queue is \<open>WM_QUIT\<close>, \<open>GetMessageW\<close> returns \<open>0\<close>
  with it; \<open>WaitMessage\<close> throws no \<open>ApplicationException\<close> and calls
  \<open>TranslateMessage\<close> and \<open>DispatchMessageW\<close> with the quit record. For a quit record
  that names no window (as the one \<open>PostQuitMessage\<close> queues) both \<open>WaitMessage\<close> and
  \<open>PollMessage\<close> return normally, with the value every other return has: the caller
  learns nothing of the quit signal from either.
\<close>

theorem quit_not_surfaced:
  fixes hk :: "('d, 'x) hooks"
  assumes "retrieval_error pf = None" and "queue w = m # ms" and "msg_message m = WM_QUIT"
  shows "GetMessageW pf zero_MSG w =
           ((Returned (0, m) :: ('x, BOOL \<times> MSG) outcome), (log Call_GetMessageW w)\<lparr>queue := ms\<rparr>) \<and>
         (\<forall>e. fst (WaitMessage pf hk w) \<noteq> Raised (Thrown e)) \<and>
         prefix (trace w @ [Call_GetMessageW, Call_TranslateMessage m, Call_DispatchMessageW m])
           (trace (snd (WaitMessage pf hk w))) \<and>
         (window_slot w (msg_hwnd m) = None \<longrightarrow>
            WaitMessage pf hk w =
              (Returned (), w\<lparr>queue := ms, trace := trace w @
                 [Call_GetMessageW, Call_TranslateMessage m, Call_DispatchMessageW m]\<rparr>) \<and>
            PollMessage pf hk w =
              (Returned (), w\<lparr>queue := ms, trace := trace w @
                 [Call_PeekMessageW, Call_TranslateMessage m, Call_DispatchMessageW m]\<rparr>))"
proof -
  have g: "GetMessageW pf zero_MSG w =
      ((Returned (0, m) :: ('x, BOOL \<times> MSG) outcome), (log Call_GetMessageW w)\<lparr>queue := ms\<rparr>)"
    using assms by (simp add: GetMessageW_def)
  note S = WaitMessage_success [OF g, of hk]
  have "WaitMessage pf hk w =
      (Returned (), w\<lparr>queue := ms, trace := trace w @
         [Call_GetMessageW, Call_TranslateMessage m, Call_DispatchMessageW m]\<rparr>)"
    if "window_slot w (msg_hwnd m) = None"
    using that
    by (auto simp add: S(1) seq_def ret_def DispatchMessageW_def log_def window_slot_def
        split: if_splits)
  moreover have "PollMessage pf hk w =
      (Returned (), w\<lparr>queue := ms, trace := trace w @
         [Call_PeekMessageW, Call_TranslateMessage m, Call_DispatchMessageW m]\<rparr>)"
    if "window_slot w (msg_hwnd m) = None"
    using that assms(2)
    by (auto simp add: PollMessage_def PeekMessageW_def TranslateMessage_def seq_def ret_def
        DispatchMessageW_def log_def window_slot_def split: if_splits)
  ultimately show ?thesis
    using g S(3,4) by simp
qed

theorem quit_not_surfaced_witness:
  "WaitMessage example_platform (default_hooks :: (unit, string) hooks) quitting_world =
     (Returned (), example_world\<lparr>trace :=
        [Call_GetMessageW, Call_TranslateMessage (quit_MSG 0), Call_DispatchMessageW (quit_MSG 0)]\<rparr>) \<and>
   PollMessage example_platform (default_hooks :: (unit, string) hooks) quitting_world =
     (Returned (), example_world\<lparr>trace :=
        [Call_PeekMessageW, Call_TranslateMessage (quit_MSG 0), Call_DispatchMessageW (quit_MSG 0)]\<rparr>)"
proof -
  have a: "retrieval_error example_platform = None"
    by (simp add: example_platform_def)
  have b: "queue quitting_world = quit_MSG 0 # []"
    by (simp add: quitting_world_def)
  have c: "msg_message (quit_MSG 0) = WM_QUIT"
    by (simp add: quit_MSG_def)
  have d: "window_slot quitting_world (msg_hwnd (quit_MSG 0)) = None"
    by (simp add: window_slot_def quit_MSG_def zero_MSG_def NULL_def)
  show ?thesis
    using quit_not_surfaced [OF a b c, of "default_hooks :: (unit, string) hooks"] d
    by (simp add: quitting_world_def example_world_def)
qed

text \<open>
  On any world with an empty queue \<open>PollMessage\<close> makes these three calls; the zeroed
  record names no window, so the window procedure is not entered.
\<close>

lemma PollMessage_empty_queue:
  assumes "queue w = []"
  shows "PollMessage pf hk w =
           (Returned (), w\<lparr>trace := trace w @
              [Call_PeekMessageW, Call_TranslateMessage zero_MSG, Call_DispatchMessageW zero_MSG]\<rparr>)"
  using assms
  by (simp add: PollMessage_def PeekMessageW_def TranslateMessage_def seq_def ret_def
      DispatchMessageW_def log_def window_slot_def zero_MSG_def NULL_def)

text \<open>
  C1. On an empty queue \<open>PeekMessageW\<close> retrieves nothing, but \<open>PollMessage\<close> drops its
  result: it goes on to call \<open>TranslateMessage\<close> and \<open>DispatchMessageW\<close> with the
  zeroed record. Evaluated on a world with an empty queue.
\<close>

theorem PollMessage_empty_queue_calls:
  "queue example_world = [] \<and>
   fst (PollMessage example_platform (default_hooks :: (unit, string) hooks) example_world) =
     Returned () \<and>
   trace (snd (PollMessage example_platform (default_hooks :: (unit, string) hooks)
     example_world)) =
     [Call_PeekMessageW, Call_TranslateMessage zero_MSG, Call_DispatchMessageW zero_MSG]"
  by (simp add: PollMessage_def PeekMessageW_def TranslateMessage_def seq_def ret_def
      DispatchMessageW_def log_def window_slot_def zero_MSG_def NULL_def example_world_def)


subsection \<open>The constructor\<close>

text \<open>
  C4. When \<open>RegisterClassW\<close> returns \<open>0\<close>, the constructor throws an
  \<open>ApplicationException\<close> with the registration description and the last-error code
  the failed registration left. The calls it has made are \<open>GetModuleHandleW\<close>,
  \<open>RegisterClassW\<close> and \<open>GetLastError\<close>: \<open>CreateWindowExW\<close> is not among them.
\<close>

theorem registration_failure_raises:
  fixes hk :: "('d, 'x) hooks"
  assumes "register_atom pf = 0" and "deref w this = Some obj"
  shows "fst (Application_ctor pf hk this lpWindowName nWidth nHeight x y dwStyle dwExStyle w) =
           Raised (Thrown \<lparr>m_info = L ''Failed to register the window class (RegisterClassW)'' @
             L '' | Error code : '' @ to_wstring (unat (register_error pf))\<rparr>) \<and>
         calls_since w
           (snd (Application_ctor pf hk this lpWindowName nWidth nHeight x y dwStyle dwExStyle w)) =
           [Call_GetModuleHandleW,
            Call_RegisterClassW \<lparr>hInstance = module_handle pf, lpszClassName = lpWindowName\<rparr>,
            Call_GetLastError] \<and>
         filter is_CreateWindowExW (calls_since w
           (snd (Application_ctor pf hk this lpWindowName nWidth nHeight x y dwStyle dwExStyle w))) = []"
  using assms
  by (auto simp add: Application_ctor_def prim_defs calls_since_def split: if_splits)

theorem registration_failure_raises_witness:
  "fst (Application_ctor refusing_platform (default_hooks :: (unit, string) hooks) 0x1000
          (L ''swl'') 640 480 0 0 0 0 fresh_world) =
     Raised (Thrown \<lparr>m_info =
       L ''Failed to register the window class (RegisterClassW) | Error code : 1410''\<rparr>) \<and>
   calls_since fresh_world
     (snd (Application_ctor refusing_platform (default_hooks :: (unit, string) hooks) 0x1000
             (L ''swl'') 640 480 0 0 0 0 fresh_world)) =
     [Call_GetModuleHandleW, Call_RegisterClassW \<lparr>hInstance = 7, lpszClassName = L ''swl''\<rparr>,
      Call_GetLastError]"
proof -
  have a: "register_atom refusing_platform = 0"
    by (simp add: example_defs)
  have b: "deref fresh_world 0x1000 = Some \<lparr>m_hInstance = 0, m_hWnd = 0, derived = ()\<rparr>"
    by (simp add: example_defs deref_def NULL_def)
  show ?thesis
    using registration_failure_raises [OF a b, of "default_hooks :: (unit, string) hooks"
        "L ''swl''" 640 480 0 0 0 0]
    by (simp add: example_defs L_def to_wstring.simps)
qed

lemma send_creation_append:
  "send_creation pf hk h (xs @ ys) w =
     (case send_creation pf hk h xs w of
        (Returned alive, w1) \<Rightarrow>
          if alive then send_creation pf hk h ys w1 else (Returned False, w1)
      | (Raised e, w1) \<Rightarrow> (Raised e, w1)
      | (Blocked, w1) \<Rightarrow> (Blocked, w1)
      | (Fault, w1) \<Rightarrow> (Fault, w1))"
proof (induction xs arbitrary: w)
  case Nil
  show ?case by simp
next
  case (Cons a xs)
  obtain u wp lp where a: "a = (u, wp, lp)"
    by (cases a)
  obtain r w1 where s: "WndProc pf hk h u wp lp w = (r, w1)"
    by (cases "WndProc pf hk h u wp lp w")
  show ?case
    using a s Cons.IH [of w1] by (cases r) simp_all
qed

lemma send_creation_script:
  fixes hk :: "('d, 'x) hooks"
  assumes "send_creation pf hk H (B @ (WM_NCCREATE, wp, lp) # A) w2 = (Returned True, w')"
  obtains wb r wn where "send_creation pf hk H B w2 = (Returned True, wb)"
    and "WndProc pf hk H WM_NCCREATE wp lp wb = (Returned r, wn)"
    and "send_creation pf hk H A wn = (Returned True, w')"
proof -
  obtain rb wb where b: "send_creation pf hk H B w2 = (rb, wb)"
    by (cases "send_creation pf hk H B w2")
  from assms b have rb: "rb = Returned True"
    and rest: "send_creation pf hk H ((WM_NCCREATE, wp, lp) # A) wb = (Returned True, w')"
    by (auto simp add: send_creation_append [of pf hk H B] split: outcome.splits if_splits)
  obtain rn wn where n: "WndProc pf hk H WM_NCCREATE wp lp wb = (rn, wn)"
    by (cases "WndProc pf hk H WM_NCCREATE wp lp wb")
  from rest n obtain r where r: "rn = Returned r"
    and a: "send_creation pf hk H A wn = (Returned True, w')"
    by (cases rn) (auto split: if_splits)
  from b rb n r a that show thesis
    by simp
qed

lemma in_calls_since:
  assumes "prefix (trace w) (trace w1)" and "prefix (trace w1 @ [c]) (trace w2)"
      and "prefix (trace w2) (trace w3)"
  shows "c \<in> set (calls_since w w3)"
proof -
  from assms(1) obtain xs where xs: "trace w1 = trace w @ xs"
    by (auto simp add: prefix_def)
  from assms(2) obtain ys where ys: "trace w2 = trace w1 @ [c] @ ys"
    by (auto simp add: prefix_def)
  from assms(3) obtain zs where zs: "trace w3 = trace w2 @ zs"
    by (auto simp add: prefix_def)
  show ?thesis
    by (simp add: calls_since_def xs ys zs)
qed

lemma calls_since_mono:
  assumes "prefix (trace w) (trace w1)" and "prefix (trace w1) (trace w2)"
      and "prefix (trace w2) (trace w3)" and "c \<in> set (calls_since w1 w2)"
  shows "c \<in> set (calls_since w w3)"
proof -
  from assms(1) obtain xs where xs: "trace w1 = trace w @ xs"
    by (auto simp add: prefix_def)
  from assms(2) obtain ys where ys: "trace w2 = trace w1 @ ys"
    by (auto simp add: prefix_def)
  from assms(3) obtain zs where zs: "trace w3 = trace w2 @ zs"
    by (auto simp add: prefix_def)
  from assms(4) have "c \<in> set ys"
    by (simp add: calls_since_def ys)
  then show ?thesis
    by (simp add: calls_since_def xs ys zs)
qed

lemma CreateWindowExW_handshake:
  fixes hk :: "('d, 'x) hooks"
  assumes c: "CreateWindowExW pf hk dwExStyle lpClassName lpWindowName dwStyle x y nWidth nHeight
                hInst this w = (Returned h, w')"
      and h: "h \<noteq> NULL"
      and script: "WM_NCCREATE \<notin> fst ` set (before_nccreate pf)"
        "WM_NCCREATE \<notin> fst ` set (after_nccreate pf)"
  shows "h = new_hwnd pf" and "user_data w' h = Some this"
    and "map_option m_hWnd (objects w' this) = Some h" and "this \<noteq> NULL"
    and "prefix (trace w) (trace w')"
    and "Call_SetWindowLongPtr h this \<in> set (calls_since w w')"
proof -
  let ?H = "new_hwnd pf"
  let ?c = "Call_CreateWindowExW dwExStyle lpClassName lpWindowName dwStyle x y nWidth nHeight
      hInst this"
  define w2 where "w2 = (log ?c w)
      \<lparr>user_data := (user_data w)(?H \<mapsto> 0),
       create_structs := (create_structs w)(cs_addr pf \<mapsto> \<lparr>lpCreateParams = this\<rparr>)\<rparr>"
  have H: "?H \<noteq> NULL"
    using c h by (auto simp add: CreateWindowExW_def)
  obtain rs ws where s: "send_creation pf hk ?H
      (before_nccreate pf @ (WM_NCCREATE, 0, cs_addr pf) # after_nccreate pf) w2 = (rs, ws)"
    by (cases "send_creation pf hk ?H
      (before_nccreate pf @ (WM_NCCREATE, 0, cs_addr pf) # after_nccreate pf) w2")
  from c h H s have rs: "rs = Returned True" and ws: "ws = w'" and hH: "h = ?H"
    by (auto simp add: CreateWindowExW_def seq_def w2_def split: outcome.splits if_splits)
  from hH show "h = ?H" .
  from s rs ws obtain wb r wn where
    b: "send_creation pf hk ?H (before_nccreate pf) w2 = (Returned True, wb)" and
    n: "WndProc pf hk ?H WM_NCCREATE 0 (cs_addr pf) wb = (Returned r, wn)" and
    a: "send_creation pf hk ?H (after_nccreate pf) wn = (Returned True, w')"
    by (auto elim: send_creation_script)
  from frame_send_creation [OF script(1), of w2 pf hk ?H] b have fb: "frame w2 wb"
    by simp
  from frame_send_creation [OF script(2), of wn pf hk ?H] a have fa: "frame wn w'"
    by simp
  have cs: "create_structs wb (cs_addr pf) = Some \<lparr>lpCreateParams = this\<rparr>"
    using fb by (simp add: frame_def w2_def)
  have slot: "window_slot wb ?H = Some 0"
    using fb H by (simp add: frame_def w2_def window_slot_def)
  note N = WndProc_NCCREATE [OF n cs slot, simplified]
  show "user_data w' h = Some this"
    using fa N(1) hH by (simp add: frame_def)
  show "map_option m_hWnd (objects w' this) = Some h"
    using fa N(2) hH by (auto simp add: frame_def fun_eq_iff dest: spec [of _ this])
  show "this \<noteq> NULL"
    using N(3) .
  have g1: "prefix (trace w) (trace wb)"
    using send_creation_grows [of w2 pf hk ?H "before_nccreate pf"] b
    by (auto simp add: w2_def log_def dest: append_prefixD)
  have g3: "prefix (trace wn) (trace w')"
    using send_creation_grows [of wn pf hk ?H "after_nccreate pf"] a by simp
  from N(5) have g2: "prefix (trace wb @ [Call_SetWindowLongPtr h this]) (trace wn)"
    using hH by simp
  show "Call_SetWindowLongPtr h this \<in> set (calls_since w w')"
    using g1 g2 g3 by (rule in_calls_since)
  from g2 have "prefix (trace wb) (trace wn)"
    by (rule append_prefixD)
  with g1 g3 show "prefix (trace w) (trace w')"
    by (auto intro: prefix_order.trans)
qed

lemma ShowWindow_frame:
  "WM_NCCREATE \<notin> fst ` set (show_messages pf) \<Longrightarrow> frame w (snd (ShowWindow pf hk hWnd n w))"
proof -
  assume script: "WM_NCCREATE \<notin> fst ` set (show_messages pf)"
  let ?w1 = "log (Call_ShowWindow hWnd n) w"
  obtain r w2 where s: "send_all pf hk hWnd (show_messages pf) ?w1 = (r, w2)"
    by (cases "send_all pf hk hWnd (show_messages pf) ?w1")
  from frame_send_all [OF script, of ?w1 pf hk hWnd] s have "frame ?w1 w2"
    by simp
  then have "frame w w2"
    by (simp add: frame_def log_def)
  then show ?thesis
    using s by (cases r) (auto simp add: ShowWindow_def seq_def ret_def frame_def log_def
        split: option.splits)
qed

lemma ShowWindow_grows: "prefix (trace w) (trace (snd (ShowWindow pf hk hWnd n w)))"
proof -
  let ?w1 = "log (Call_ShowWindow hWnd n) w"
  obtain r w2 where s: "send_all pf hk hWnd (show_messages pf) ?w1 = (r, w2)"
    by (cases "send_all pf hk hWnd (show_messages pf) ?w1")
  from send_all_grows [of ?w1 pf hk hWnd "show_messages pf"] s have "prefix (trace w) (trace w2)"
    by (auto simp add: log_def dest: append_prefixD)
  then show ?thesis
    using s by (cases r) (auto simp add: ShowWindow_def seq_def ret_def log_def
        split: option.splits)
qed

text \<open>
  C5. Whenever the constructor returns, on a platform that sends \<open>WM_NCCREATE\<close> once
  for the window it creates: the object's \<open>m_hWnd\<close> is the handle of that window, which
  is not \<open>NULL\<close>; it is the handle the creation notification came with, for which the
  window procedure called \<open>SetWindowLongPtr\<close> with \<open>this\<close>; and the window's user-data
  slot holds \<open>this\<close>. This holds for every choice of construction parameters and of the
  hooks in effect during construction.
\<close>

theorem construction_handshake:
  fixes hk :: "('d, 'x) hooks"
  assumes ok: "Application_ctor pf hk this lpWindowName nWidth nHeight x y dwStyle dwExStyle w =
                 (Returned (), w')"
      and script: "WM_NCCREATE \<notin>
                 fst ` set (before_nccreate pf @ after_nccreate pf @ show_messages pf)"
  shows "map_option m_hWnd (deref w' this) = Some (new_hwnd pf) \<and>
         new_hwnd pf \<noteq> NULL \<and>
         window_slot w' (new_hwnd pf) = Some this \<and>
         Call_SetWindowLongPtr (new_hwnd pf) this \<in> set (calls_since w w')"
proof -
  from ok [unfolded Application_ctor_def]
  obtain hI w1 where s1: "GetModuleHandleW pf w = ((Returned hI :: ('x, HINSTANCE) outcome), w1)"
    and r1: "seq (store_m_hInstance this hI) (\<lambda>_.
       seq (load this) (\<lambda>obj.
       seq (RegisterClassW pf \<lparr>hInstance = m_hInstance obj, lpszClassName = lpWindowName\<rparr>)
         (\<lambda>atom.
       if atom = 0 then
         throw_ApplicationException (L ''Failed to register the window class (RegisterClassW)'')
       else
         seq (CreateWindowExW pf hk dwExStyle lpWindowName lpWindowName dwStyle x y
                nWidth nHeight (m_hInstance obj) this) (\<lambda>hWnd.
         seq (store_m_hWnd this hWnd) (\<lambda>_.
         if hWnd = NULL then
           throw_ApplicationException (L ''Failed to create a window (CreateWindowEx)'')
         else
           seq (ShowWindow pf hk hWnd SW_SHOW) (\<lambda>_. ret ())))))) w1 = (Returned (), w')"
    by (rule seq_ReturnedE)
  from r1 obtain u2 w2 where s2: "store_m_hInstance this hI w1 = ((Returned u2 :: ('x, unit) outcome), w2)"
    and r2: "seq (load this) (\<lambda>obj.
       seq (RegisterClassW pf \<lparr>hInstance = m_hInstance obj, lpszClassName = lpWindowName\<rparr>)
         (\<lambda>atom.
       if atom = 0 then
         throw_ApplicationException (L ''Failed to register the window class (RegisterClassW)'')
       else
         seq (CreateWindowExW pf hk dwExStyle lpWindowName lpWindowName dwStyle x y
                nWidth nHeight (m_hInstance obj) this) (\<lambda>hWnd.
         seq (store_m_hWnd this hWnd) (\<lambda>_.
         if hWnd = NULL then
           throw_ApplicationException (L ''Failed to create a window (CreateWindowEx)'')
         else
           seq (ShowWindow pf hk hWnd SW_SHOW) (\<lambda>_. ret ()))))) w2 = (Returned (), w')"
    by (rule seq_ReturnedE)
  from r2 obtain obj w2' where s3: "load this w2 = ((Returned obj :: ('x, 'd Application) outcome), w2')"
    and r3: "seq (RegisterClassW pf \<lparr>hInstance = m_hInstance obj, lpszClassName = lpWindowName\<rparr>)
         (\<lambda>atom.
       if atom = 0 then
         throw_ApplicationException (L ''Failed to register the window class (RegisterClassW)'')
       else
         seq (CreateWindowExW pf hk dwExStyle lpWindowName lpWindowName dwStyle x y
                nWidth nHeight (m_hInstance obj) this) (\<lambda>hWnd.
         seq (store_m_hWnd this hWnd) (\<lambda>_.
         if hWnd = NULL then
           throw_ApplicationException (L ''Failed to create a window (CreateWindowEx)'')
         else
           seq (ShowWindow pf hk hWnd SW_SHOW) (\<lambda>_. ret ())))) w2' = (Returned (), w')"
    by (rule seq_ReturnedE)
  from r3 obtain atom w3 where
    s4: "RegisterClassW pf \<lparr>hInstance = m_hInstance obj, lpszClassName = lpWindowName\<rparr> w2' =
           ((Returned atom :: ('x, ATOM) outcome), w3)"
    and r4: "(if atom = 0 then
         throw_ApplicationException (L ''Failed to register the window class (RegisterClassW)'')
       else
         seq (CreateWindowExW pf hk dwExStyle lpWindowName lpWindowName dwStyle x y
                nWidth nHeight (m_hInstance obj) this) (\<lambda>hWnd.
         seq (store_m_hWnd this hWnd) (\<lambda>_.
         if hWnd = NULL then
           throw_ApplicationException (L ''Failed to create a window (CreateWindowEx)'')
         else
           seq (ShowWindow pf hk hWnd SW_SHOW) (\<lambda>_. ret ())))) w3 = (Returned (), w')"
    by (rule seq_ReturnedE)
  from r4 have r4': "seq (CreateWindowExW pf hk dwExStyle lpWindowName lpWindowName dwStyle x y
                nWidth nHeight (m_hInstance obj) this) (\<lambda>hWnd.
         seq (store_m_hWnd this hWnd) (\<lambda>_.
         if hWnd = NULL then
           throw_ApplicationException (L ''Failed to create a window (CreateWindowEx)'')
         else
           seq (ShowWindow pf hk hWnd SW_SHOW) (\<lambda>_. ret ()))) w3 = (Returned (), w')"
    by (simp add: throw_ApplicationException_def split: if_splits)
  from r4' obtain hWnd w4 where
    s5: "CreateWindowExW pf hk dwExStyle lpWindowName lpWindowName dwStyle x y
           nWidth nHeight (m_hInstance obj) this w3 = (Returned hWnd, w4)"
    and r5: "seq (store_m_hWnd this hWnd) (\<lambda>_.
         if hWnd = NULL then
           throw_ApplicationException (L ''Failed to create a window (CreateWindowEx)'')
         else
           seq (ShowWindow pf hk hWnd SW_SHOW) (\<lambda>_. ret ())) w4 = (Returned (), w')"
    by (rule seq_ReturnedE)
  from r5 obtain u5 w5 where s6: "store_m_hWnd this hWnd w4 = ((Returned u5 :: ('x, unit) outcome), w5)"
    and r6: "(if hWnd = NULL then
           throw_ApplicationException (L ''Failed to create a window (CreateWindowEx)'')
         else
           seq (ShowWindow pf hk hWnd SW_SHOW) (\<lambda>_. ret ())) w5 = (Returned (), w')"
    by (rule seq_ReturnedE)
  from r6 have nz: "hWnd \<noteq> NULL"
    and r6': "seq (ShowWindow pf hk hWnd SW_SHOW) (\<lambda>_. ret ()) w5 = (Returned (), w')"
    by (simp_all add: throw_ApplicationException_def split: if_splits)
  from r6' obtain b where s7: "ShowWindow pf hk hWnd SW_SHOW w5 = (Returned b, w')"
    by (auto elim!: seq_ReturnedE simp add: ret_def)
  from script have sc: "WM_NCCREATE \<notin> fst ` set (before_nccreate pf)"
    "WM_NCCREATE \<notin> fst ` set (after_nccreate pf)" "WM_NCCREATE \<notin> fst ` set (show_messages pf)"
    by auto
  note C = CreateWindowExW_handshake [OF s5 nz sc(1,2)]
  have t3: "prefix (trace w) (trace w3)"
    using s1 s2 s3 s4
    by (auto simp add: prim_defs split: option.splits)
  have w5: "w5 = w4\<lparr>objects := (objects w4)(this \<mapsto> (the (objects w4 this))\<lparr>m_hWnd := hWnd\<rparr>)\<rparr>"
    using s6 by (auto simp add: store_m_hWnd_def deref_def split: option.splits if_splits)
  have f5: "frame w4 w5"
    using C(3) by (auto simp add: w5 frame_def fun_eq_iff)
  from ShowWindow_frame [OF sc(3), of w5 hk hWnd SW_SHOW] s7 have f6: "frame w5 w'"
    by simp
  from ShowWindow_grows [of w5 pf hk hWnd SW_SHOW] s7 have t6: "prefix (trace w4) (trace w')"
    by (simp add: w5)
  have fr: "frame w4 w'"
    using f5 f6 by (rule frame_trans)
  have "map_option m_hWnd (deref w' this) = Some (new_hwnd pf)"
    using fr C(1,3,4) by (auto simp add: frame_def fun_eq_iff deref_def dest: spec [of _ this])
  moreover have "new_hwnd pf \<noteq> NULL"
    using nz C(1) by simp
  moreover have "window_slot w' (new_hwnd pf) = Some this"
    using fr C(1,2) nz by (simp add: frame_def window_slot_def)
  moreover have "Call_SetWindowLongPtr (new_hwnd pf) this \<in> set (calls_since w w')"
    using calls_since_mono [OF t3 C(5) t6 C(6)] C(1) by simp
  ultimately show ?thesis
    by simp
qed

lemma example_construction:
  "fst (Application_ctor example_platform (default_hooks :: (unit, string) hooks) 0x1000
          (L ''swl'') 640 480 0 0 0 0 fresh_world) = Returned ()"
  by (simp add: Application_ctor_def CreateWindowExW_def ShowWindow_def WndProc_def
      find_shell_def dispatch_switch_def prim_defs example_defs msg_defs NULL_def FALSE_def)

theorem construction_handshake_witness:
  "fst (Application_ctor example_platform (default_hooks :: (unit, string) hooks) 0x1000
          (L ''swl'') 640 480 0 0 0 0 fresh_world) = Returned () \<and>
   map_option m_hWnd
     (deref (snd (Application_ctor example_platform (default_hooks :: (unit, string) hooks) 0x1000
                    (L ''swl'') 640 480 0 0 0 0 fresh_world)) 0x1000) = Some 0x50 \<and>
   window_slot (snd (Application_ctor example_platform (default_hooks :: (unit, string) hooks)
                       0x1000 (L ''swl'') 640 480 0 0 0 0 fresh_world)) 0x50 = Some 0x1000 \<and>
   Call_SetWindowLongPtr 0x50 0x1000 \<in>
     set (calls_since fresh_world
       (snd (Application_ctor example_platform (default_hooks :: (unit, string) hooks) 0x1000
               (L ''swl'') 640 480 0 0 0 0 fresh_world)))"
proof -
  have ok: "Application_ctor example_platform (default_hooks :: (unit, string) hooks) 0x1000
          (L ''swl'') 640 480 0 0 0 0 fresh_world =
        (Returned (), snd (Application_ctor example_platform
          (default_hooks :: (unit, string) hooks) 0x1000 (L ''swl'') 640 480 0 0 0 0 fresh_world))"
    using example_construction by (simp add: prod_eq_iff)
  have script: "WM_NCCREATE \<notin> fst ` set (before_nccreate example_platform @
      after_nccreate example_platform @ show_messages example_platform)"
    by (simp add: example_platform_def msg_defs)
  show ?thesis
    using construction_handshake [OF ok script] example_construction
    by (simp add: example_platform_def)
qed

end
